theory Spec2Isabelle
  imports Complex_Main
begin

section \<open>JavaScript numbers\<close>

text \<open>
  The chart code computes with JavaScript numbers. They are modelled as exact rationals
  extended with the three non-finite values; the rounding of IEEE doubles and the sign of
  zero are not modelled (a zero divisor is read as \<open>+0\<close>).
\<close>

datatype jsnum = Fin rat | PInf | NInf | NaN

definition signed_inf :: "rat \<Rightarrow> jsnum" where
  "signed_inf s = (if s = 0 then NaN else if 0 < s then PInf else NInf)"

fun js_neg :: "jsnum \<Rightarrow> jsnum" where
  "js_neg (Fin a) = Fin (- a)"
| "js_neg PInf = NInf"
| "js_neg NInf = PInf"
| "js_neg NaN = NaN"

fun js_add :: "jsnum \<Rightarrow> jsnum \<Rightarrow> jsnum" where
  "js_add NaN y = NaN"
| "js_add x NaN = NaN"
| "js_add (Fin a) (Fin b) = Fin (a + b)"
| "js_add (Fin a) y = y"
| "js_add x (Fin b) = x"
| "js_add PInf PInf = PInf"
| "js_add NInf NInf = NInf"
| "js_add PInf NInf = NaN"
| "js_add NInf PInf = NaN"

definition js_sub :: "jsnum \<Rightarrow> jsnum \<Rightarrow> jsnum" where
  "js_sub x y = js_add x (js_neg y)"

fun js_mul :: "jsnum \<Rightarrow> jsnum \<Rightarrow> jsnum" where
  "js_mul NaN y = NaN"
| "js_mul x NaN = NaN"
| "js_mul (Fin a) (Fin b) = Fin (a * b)"
| "js_mul (Fin a) PInf = signed_inf a"
| "js_mul (Fin a) NInf = signed_inf (- a)"
| "js_mul PInf (Fin b) = signed_inf b"
| "js_mul NInf (Fin b) = signed_inf (- b)"
| "js_mul PInf PInf = PInf"
| "js_mul NInf NInf = PInf"
| "js_mul PInf NInf = NInf"
| "js_mul NInf PInf = NInf"

fun js_div :: "jsnum \<Rightarrow> jsnum \<Rightarrow> jsnum" where
  "js_div NaN y = NaN"
| "js_div x NaN = NaN"
| "js_div (Fin a) (Fin b) = (if b = 0 then signed_inf a else Fin (a / b))"
| "js_div (Fin a) y = Fin 0"
| "js_div PInf (Fin b) = (if 0 \<le> b then PInf else NInf)"
| "js_div NInf (Fin b) = (if 0 \<le> b then NInf else PInf)"
| "js_div x y = NaN"

fun js_floor :: "jsnum \<Rightarrow> jsnum" where
  "js_floor (Fin a) = Fin (of_int \<lfloor>a\<rfloor>)"
| "js_floor x = x"

fun js_lt :: "jsnum \<Rightarrow> jsnum \<Rightarrow> bool" where
  "js_lt NaN y = False"
| "js_lt x NaN = False"
| "js_lt (Fin a) (Fin b) = (a < b)"
| "js_lt x NInf = False"
| "js_lt PInf y = False"
| "js_lt NInf y = True"
| "js_lt x PInf = True"

definition js_gt :: "jsnum \<Rightarrow> jsnum \<Rightarrow> bool" where
  "js_gt x y = js_lt y x"

text \<open>Rounding towards zero, the integer part that \<open>ToIntegerOrInfinity\<close> takes.\<close>

definition js_trunc :: "rat \<Rightarrow> int" where
  "js_trunc a = (if 0 \<le> a then \<lfloor>a\<rfloor> else \<lceil>a\<rceil>)"

text \<open>The remainder operator \<open>%\<close>: the result has the sign of the dividend.\<close>

fun js_rem :: "jsnum \<Rightarrow> jsnum \<Rightarrow> jsnum" where
  "js_rem NaN y = NaN"
| "js_rem x NaN = NaN"
| "js_rem (Fin a) (Fin b) = (if b = 0 then NaN else Fin (a - b * of_int (js_trunc (a / b))))"
| "js_rem (Fin a) y = Fin a"
| "js_rem x y = NaN"

text \<open>Strict inequality \<open>!==\<close> of two numbers: \<open>NaN\<close> differs from everything.\<close>

definition js_neq :: "jsnum \<Rightarrow> jsnum \<Rightarrow> bool" where
  "js_neq x y = (x = NaN \<or> y = NaN \<or> x \<noteq> y)"

text \<open>A property that holds a number, read where a number is expected: an absent
  property is \<open>undefined\<close>, which converts to \<open>NaN\<close>.\<close>

definition num_field :: "jsnum option \<Rightarrow> jsnum" where
  "num_field v = (case v of None \<Rightarrow> NaN | Some n \<Rightarrow> n)"

section \<open>The value encoder\<close>

definition EXTENDED_MAP :: string where
  "EXTENDED_MAP = ''ABCDEFGHIJKLMNOPQRSTUVWXYZabcdefghijklmnopqrstuvwxyz0123456789-.''"

text \<open>
  \<open>String.prototype.charAt\<close>: the position is the argument's integer part, \<open>NaN\<close> reads
  as position 0, and a position outside the string gives the empty string.
\<close>

fun charAt :: "string \<Rightarrow> jsnum \<Rightarrow> string" where
  "charAt s NaN = (if s = [] then [] else [s ! 0])"
| "charAt s (Fin a) =
     (if 0 \<le> js_trunc a \<and> js_trunc a < int (length s) then [s ! nat (js_trunc a)] else [])"
| "charAt s x = []"

text \<open>The scaling of one value, line 216.\<close>

definition scaledVal :: "jsnum \<Rightarrow> jsnum \<Rightarrow> jsnum" where
  "scaledVal numericVal maxVal =
     (let EXTENDED_MAP_LENGTH = Fin (of_nat (length EXTENDED_MAP))
      in js_floor (js_div (js_mul (js_mul EXTENDED_MAP_LENGTH EXTENDED_MAP_LENGTH) numericVal) maxVal))"

text \<open>One round of the loop of \<open>extendedEncode\<close>: \<open>chartData\<close> before and after.\<close>

definition encode_step :: "jsnum \<Rightarrow> string \<Rightarrow> jsnum \<Rightarrow> string" where
  "encode_step maxVal chartData numericVal =
     (let EXTENDED_MAP_LENGTH = Fin (of_nat (length EXTENDED_MAP));
          sv = scaledVal numericVal maxVal
      in if js_gt sv (js_sub (js_mul EXTENDED_MAP_LENGTH EXTENDED_MAP_LENGTH) (Fin 1))
         then chartData @ ''..''
         else if js_lt sv (Fin 0) then chartData @ ''__''
         else (let quotient = js_floor (js_div sv EXTENDED_MAP_LENGTH);
                   remainder = js_sub sv (js_mul EXTENDED_MAP_LENGTH quotient)
               in chartData @ (charAt EXTENDED_MAP quotient @ charAt EXTENDED_MAP remainder)))"

definition extendedEncode :: "jsnum list \<Rightarrow> jsnum \<Rightarrow> string" where
  "extendedEncode arrVals maxVal = foldl (encode_step maxVal) [] arrVals"

section \<open>Strings\<close>

definition digit_char :: "nat \<Rightarrow> char" where
  "digit_char d = ''0123456789'' ! (d mod 10)"

fun decimal :: "nat \<Rightarrow> string" where
  "decimal n = (if n < 10 then [digit_char n] else decimal (n div 10) @ [digit_char n])"

declare decimal.simps [simp del]

fun join :: "string \<Rightarrow> string list \<Rightarrow> string" where
  "join sep [] = []"
| "join sep [x] = x"
| "join sep (x # y # ys) = x @ sep @ join sep (y # ys)"

text \<open>\<open>toLowerCase\<close> on the ASCII letters (the strings of the model are byte strings).\<close>

definition lower_char :: "char \<Rightarrow> char" where
  "lower_char c = (let n = (of_char c :: nat) in if 65 \<le> n \<and> n \<le> 90 then char_of (n + 32) else c)"

definition toLowerCase :: "string \<Rightarrow> string" where
  "toLowerCase s = map lower_char s"

text \<open>\<open>s.slice(-2)\<close>: the last two characters of a string (all of it when shorter).\<close>

definition slice_last2 :: "string \<Rightarrow> string" where
  "slice_last2 s = drop (length s - 2) s"

section \<open>Metric series\<close>

datatype error = Error string | TypeError string

record datapoint =
  Timestamp :: int
  Maximum :: "rat option"
  Average :: "rat option"

record dimension =
  Name :: string
  Value :: "string option"

text \<open>
  The values a per-metric configuration object holds: strings, numbers, booleans and
  arrays of dimensions. How a number prints is a built-in of the language that depends on
  the IEEE representation; it is a parameter \<open>num_str\<close> of the functions that need it.
\<close>

datatype pval = PStr string | PNum jsnum | PBool bool | PDims "dimension list"

definition dims_to_string :: "dimension list \<Rightarrow> string" where
  "dims_to_string ds = join '','' (map (\<lambda>d. ''[object Object]'') ds)"

text \<open>String conversion, as in \<open>'' + v\<close> and in \<open>Array.prototype.join\<close>.\<close>

fun to_str :: "(jsnum \<Rightarrow> string) \<Rightarrow> pval \<Rightarrow> string" where
  "to_str num_str (PStr s) = s"
| "to_str num_str (PNum n) = num_str n"
| "to_str num_str (PBool b) = (if b then ''true'' else ''false'')"
| "to_str num_str (PDims ds) = dims_to_string ds"

text \<open>The condition of \<open>v ? true : false\<close>.\<close>

fun truthy :: "pval \<Rightarrow> bool" where
  "truthy (PStr s) = (s \<noteq> [])"
| "truthy (PNum n) = (n \<noteq> NaN \<and> n \<noteq> Fin 0)"
| "truthy (PBool b) = b"
| "truthy (PDims ds) = True"

text \<open>
  \<open>parseInt(v, 10)\<close>: the string conversion of \<open>v\<close>, leading white space skipped, an
  optional sign, then decimal digits up to the first other character; \<open>NaN\<close> when there
  is no digit. White space is the ASCII white space here.
\<close>

definition is_space :: "char \<Rightarrow> bool" where
  "is_space c = ((of_char c :: nat) \<in> {9, 10, 11, 12, 13, 32})"

definition is_digit :: "char \<Rightarrow> bool" where
  "is_digit c = (48 \<le> (of_char c :: nat) \<and> (of_char c :: nat) \<le> 57)"

definition digits_value :: "string \<Rightarrow> nat" where
  "digits_value ds = foldl (\<lambda>acc c. 10 * acc + ((of_char c :: nat) - 48)) 0 ds"

definition parseInt10 :: "string \<Rightarrow> jsnum" where
  "parseInt10 s =
     (let s1 = dropWhile is_space s;
          neg = (s1 \<noteq> [] \<and> hd s1 = CHR ''-'');
          s2 = (if s1 \<noteq> [] \<and> (hd s1 = CHR ''-'' \<or> hd s1 = CHR ''+'') then tl s1 else s1);
          ds = takeWhile is_digit s2
      in if ds = [] then NaN
         else Fin (if neg then - of_nat (digits_value ds) else of_nat (digits_value ds)))"

record metric =
  title :: "string option"
  statistic :: pval
  Namespace :: "string option"
  MetricName :: "string option"
  color :: pval
  Unit :: "pval option"
  thickness :: pval
  dashed :: bool
  Dimensions :: pval
  datapoints :: "datapoint list"

text \<open>
  The constructor \<open>AwsCloudWatchChartMetric\<close>, lines 410 to 423. Properties it does not
  set are \<open>undefined\<close> (\<open>None\<close>). The back reference to the chart is read by
  \<open>getStatistics\<close> only and is left out.
\<close>

definition AwsCloudWatchChartMetric :: metric where
  "AwsCloudWatchChartMetric =
     \<lparr> title = None, statistic = PStr ''Average'', Namespace = None, MetricName = None,
       color = PStr ''FF0000'', Unit = None, thickness = PStr ''1'', dashed = False,
       Dimensions = PDims [], datapoints = [] \<rparr>"

text \<open>\<open>getTitle\<close>, lines 456 to 467. A string or a number has no dimension objects:
  indexing a string gives a character, whose \<open>Value\<close> is \<open>undefined\<close>, and a number or a
  boolean has no \<open>length\<close>.\<close>

definition getTitle :: "metric \<Rightarrow> string" where
  "getTitle m =
     (case title m of
        Some t \<Rightarrow> t
      | None \<Rightarrow>
          (case Dimensions m of
             PDims ds \<Rightarrow>
               (if length ds > 0
                then (case Value (ds ! 0) of
                        None \<Rightarrow> []
                      | Some v \<Rightarrow> (if v \<noteq> [] then v else []))
                else [])
           | _ \<Rightarrow> []))"

text \<open>One round of the loop of \<open>addMetric\<close>: the \<open>switch\<close> on the lower-cased key.\<close>

definition set_param :: "(jsnum \<Rightarrow> string) \<Rightarrow> string \<Rightarrow> pval \<Rightarrow> metric \<Rightarrow> error + metric" where
  "set_param num_str k v m =
     (let lk = toLowerCase k in
      if lk = ''title'' then Inr (m\<lparr>title := Some (to_str num_str v)\<rparr>)
      else if lk = ''statistic'' then Inr (m\<lparr>statistic := v\<rparr>)
      else if lk = ''namespace'' then Inr (m\<lparr>Namespace := Some (to_str num_str v)\<rparr>)
      else if lk = ''metricname'' then Inr (m\<lparr>MetricName := Some (to_str num_str v)\<rparr>)
      else if lk = ''color'' then Inr (m\<lparr>color := v\<rparr>)
      else if lk = ''unit'' then Inr (m\<lparr>Unit := Some v\<rparr>)
      else if lk = ''thickness'' then Inr (m\<lparr>thickness := PNum (parseInt10 (to_str num_str v))\<rparr>)
      else if lk = ''dashed'' then Inr (m\<lparr>dashed := (if truthy v then True else False)\<rparr>)
      else if lk = ''dimensions'' then Inr (m\<lparr>Dimensions := v\<rparr>)
      else Inl (Error (''Unknown parameter: '' @ k)))"

text \<open>\<open>addMetric\<close>: the parameters are the object's properties in the order \<open>for ... in\<close>
  visits them. An unknown key throws before the metric is pushed.\<close>

fun addMetric_loop :: "(jsnum \<Rightarrow> string) \<Rightarrow> (string \<times> pval) list \<Rightarrow> metric \<Rightarrow> error + metric" where
  "addMetric_loop num_str [] m = Inr m"
| "addMetric_loop num_str ((k, v) # params) m =
     (case set_param num_str k v m of
        Inl e \<Rightarrow> Inl e
      | Inr m' \<Rightarrow> addMetric_loop num_str params m')"

definition addMetric :: "(jsnum \<Rightarrow> string) \<Rightarrow> metric list \<Rightarrow> (string \<times> pval) list \<Rightarrow> error + metric list" where
  "addMetric num_str this_metrics params =
     (case addMetric_loop num_str params AwsCloudWatchChartMetric of
        Inl e \<Rightarrow> Inl e
      | Inr m \<Rightarrow> Inr (this_metrics @ [m]))"

section \<open>The chart and its configuration\<close>

text \<open>
  A configuration object has the properties the chart reads; a property the object does
  not have is \<open>None\<close>. The numeric properties hold numbers. \<open>metrics\<close> holds an array of
  per-metric configuration objects, or some value that is not an array.
\<close>

datatype metrics_val = NotArray | MetricsArray "(string \<times> pval) list list"

record config =
  metrics :: "metrics_val option"
  timeOffset :: "jsnum option"
  timePeriod :: "jsnum option"
  chartSamples :: "jsnum option"
  width :: "jsnum option"
  height :: "jsnum option"

definition defaultConfig :: config where
  "defaultConfig =
     \<lparr> metrics = None, timeOffset = Some (Fin 1440), timePeriod = Some (Fin 60),
       chartSamples = Some (Fin 24), width = Some (Fin 1000), height = Some (Fin 250) \<rparr>"

text \<open>The object literal \<open>{}\<close>.\<close>

definition empty_object :: config where
  "empty_object =
     \<lparr> metrics = None, timeOffset = None, timePeriod = None, chartSamples = None,
       width = None, height = None \<rparr>"

text \<open>
  Configuration objects live in a store, addressed by their position; the caller's
  object and the chart's own are two of them. \<open>Object.assign(target, sources...)\<close> writes
  every property that a source has into the object at \<open>target\<close>, source after source.
\<close>

type_synonym heap = "config list"

definition copy_props :: "config \<Rightarrow> config \<Rightarrow> config" where
  "copy_props to_obj src =
     \<lparr> metrics = (case metrics src of None \<Rightarrow> metrics to_obj | Some v \<Rightarrow> Some v),
       timeOffset = (case timeOffset src of None \<Rightarrow> timeOffset to_obj | Some v \<Rightarrow> Some v),
       timePeriod = (case timePeriod src of None \<Rightarrow> timePeriod to_obj | Some v \<Rightarrow> Some v),
       chartSamples = (case chartSamples src of None \<Rightarrow> chartSamples to_obj | Some v \<Rightarrow> Some v),
       width = (case width src of None \<Rightarrow> width to_obj | Some v \<Rightarrow> Some v),
       height = (case height src of None \<Rightarrow> height to_obj | Some v \<Rightarrow> Some v) \<rparr>"

definition Object_assign :: "nat \<Rightarrow> config list \<Rightarrow> heap \<Rightarrow> heap" where
  "Object_assign target sources h =
     foldl (\<lambda>h' src. h'[target := copy_props (h' ! target) src]) h sources"

text \<open>The argument of the constructor: a value that is not an object, \<open>null\<close> (whose
  \<open>typeof\<close> is \<open>'object'\<close> and which \<open>Object.assign\<close> skips), or an object of the store.\<close>

datatype config_arg = NotObject | NullObject | ConfigAt nat

record chart =
  this_metrics :: "metric list"
  this_config :: nat

definition isArray :: "metrics_val option \<Rightarrow> bool" where
  "isArray v = (case v of Some (MetricsArray ps) \<Rightarrow> True | _ \<Rightarrow> False)"

fun addMetrics :: "(jsnum \<Rightarrow> string) \<Rightarrow> (string \<times> pval) list list \<Rightarrow> metric list \<Rightarrow> error + metric list" where
  "addMetrics num_str [] ms = Inr ms"
| "addMetrics num_str (params # rest) ms =
     (case addMetric num_str ms params of
        Inl e \<Rightarrow> Inl e
      | Inr ms' \<Rightarrow> addMetrics num_str rest ms')"

text \<open>The constructor, lines 87 to 117: the result (an error thrown, or the chart) and
  the store afterwards.\<close>

definition AwsCloudWatchChart :: "(jsnum \<Rightarrow> string) \<Rightarrow> config_arg \<Rightarrow> heap \<Rightarrow> (error + chart) \<times> heap" where
  "AwsCloudWatchChart num_str arg h =
     (case arg of
        NotObject \<Rightarrow> (Inl (Error ''Must provide config object''), h)
      | _ \<Rightarrow>
        (let target = length h;
             h1 = h @ [empty_object];
             h2 = Object_assign target
                    (defaultConfig # (case arg of ConfigAt a \<Rightarrow> [h1 ! a] | _ \<Rightarrow> [])) h1;
             cfg = h2 ! target;
             w = num_field (width cfg);
             ht = num_field (height cfg)
         in if \<not> isArray (metrics cfg)
            then (Inl (Error ''config.metrics array required''), h2)
            else if js_gt w (Fin 1000) \<or> js_gt ht (Fin 1000) \<or> js_gt (js_mul ht w) (Fin 300000)
            then (Inl (Error ''Maximum value for width or height is 1,000. Width x height cannot exceed 300,000.''), h2)
            else if js_lt w (Fin 1) \<or> js_lt ht (Fin 1)
            then (Inl (Error ''Invalid width and height parameters''), h2)
            else if js_neq (js_rem (num_field (timePeriod cfg)) (Fin 60)) (Fin 0)
            then (Inl (Error ''config.timePeriod should be based on 60''), h2)
            else (case addMetrics num_str
                         (case metrics cfg of Some (MetricsArray ps) \<Rightarrow> ps | _ \<Rightarrow> []) [] of
                    Inl e \<Rightarrow> (Inl e, h2)
                  | Inr ms \<Rightarrow> (Inr \<lparr> this_metrics = ms, this_config = target \<rparr>, h2))))"

section \<open>Building the chart request\<close>

subsection \<open>The time range\<close>

text \<open>
  A \<open>Date\<close> object is its identity and its time value, an integer number of
  milliseconds. The first loop of \<open>getURL\<close> (lines 284 to 297) makes one \<open>Date\<close> for every
  data point, numbered in the order of creation, and keeps the earliest and the latest;
  \<open>None\<close> is the initial \<open>false\<close>. The two variables may hold the same object.
\<close>

type_synonym date = "nat \<times> int"

definition scan_step :: "date option \<times> date option \<times> nat \<Rightarrow> datapoint \<Rightarrow> date option \<times> date option \<times> nat" where
  "scan_step st p =
     (case st of (startTime, endTime, n) \<Rightarrow>
        (let d = (n, Timestamp p);
             endTime1 = (case endTime of None \<Rightarrow> d | Some e \<Rightarrow> e);
             startTime1 = (case startTime of None \<Rightarrow> d | Some b \<Rightarrow> b);
             endTime2 = (if snd d > snd endTime1 then d else endTime1);
             startTime2 = (if snd d < snd startTime1 then d else startTime1)
         in (Some startTime2, Some endTime2, n + 1)))"

definition scan :: "metric list \<Rightarrow> date option \<times> date option \<times> nat" where
  "scan ms = foldl (\<lambda>st m. foldl scan_step st (datapoints m)) (None, None, 0) ms"

text \<open>A date or \<open>false\<close> where a number is expected.\<close>

definition date_num :: "date option \<Rightarrow> int" where
  "date_num d = (case d of None \<Rightarrow> 0 | Some (n, t) \<Rightarrow> t)"

subsection \<open>The time buckets\<close>

record time_label =
  label_text :: string
  label_start :: int
  label_end :: int

text \<open>\<open>TimeClip\<close>, which \<open>setTime\<close> applies: a time value is an integer of magnitude at
  most \<open>8.64e15\<close>, anything else makes the date invalid (\<open>None\<close>).\<close>

definition TimeClip :: "jsnum \<Rightarrow> int option" where
  "TimeClip x =
     (case x of
        Fin a \<Rightarrow> (if \<bar>a\<bar> > 8640000000000000 then None else Some (js_trunc a))
      | _ \<Rightarrow> None)"

definition utc_hhmm :: "int \<Rightarrow> string" where
  "utc_hhmm t =
     slice_last2 (''0'' @ decimal (nat ((t div 3600000) mod 24))) @ '':'' @
     slice_last2 (''0'' @ decimal (nat ((t div 60000) mod 60)))"

text \<open>
  The loop of lines 305 to 316. \<open>i\<close> is the time value of the date the loop moves (the
  object \<open>startTime\<close>), \<open>None\<close> once it is invalid; \<open>same\<close> tells that \<open>endTime\<close> is
  that very object, and \<open>e\<close> is the time value of \<open>endTime\<close> otherwise. The loop need not
  end: not returning is the value \<open>None\<close>.
\<close>

partial_function (option) walk ::
  "bool \<Rightarrow> int \<Rightarrow> jsnum \<Rightarrow> int option \<Rightarrow> time_label list \<Rightarrow> int option \<Rightarrow> time_label list option" where
  [code]: "walk same e diff prevTime timeLabels i =
     (case i of
        None \<Rightarrow> Some timeLabels
      | Some t \<Rightarrow>
          (if t \<le> (if same then t else e)
           then walk same e diff (Some t)
                  (case prevTime of
                     None \<Rightarrow> timeLabels
                   | Some p \<Rightarrow> timeLabels @
                       [\<lparr> label_text = utc_hhmm t, label_start = p, label_end = t \<rparr>])
                  (TimeClip (js_add (Fin (of_int t)) diff))
           else Some timeLabels))"

subsection \<open>The reduction of one bucket\<close>

text \<open>One round of the innermost loop, lines 333 to 348: the state is
  \<open>(maxInPeriod, totalInPeriod, totalInPeriodCount)\<close>.\<close>

definition bucket_step :: "time_label \<Rightarrow> rat \<times> rat \<times> nat \<Rightarrow> datapoint \<Rightarrow> rat \<times> rat \<times> nat" where
  "bucket_step l st p =
     (case st of (maxInPeriod, totalInPeriod, totalInPeriodCount) \<Rightarrow>
        (if Timestamp p > label_start l \<and> Timestamp p \<le> label_end l
         then (case Maximum p of
                 None \<Rightarrow> maxInPeriod
               | Some mx \<Rightarrow> (if maxInPeriod < mx then mx else maxInPeriod),
               case Average p of None \<Rightarrow> totalInPeriod | Some a \<Rightarrow> totalInPeriod + a,
               case Average p of None \<Rightarrow> totalInPeriodCount | Some a \<Rightarrow> totalInPeriodCount + 1)
         else (maxInPeriod, totalInPeriod, totalInPeriodCount)))"

definition bucket_loop :: "time_label \<Rightarrow> datapoint list \<Rightarrow> rat \<times> rat \<times> nat" where
  "bucket_loop l dps = foldl (bucket_step l) (0, 0, 0) dps"

definition maxInPeriod :: "time_label \<Rightarrow> datapoint list \<Rightarrow> rat" where
  "maxInPeriod l dps = fst (bucket_loop l dps)"

definition averageInPeriod :: "time_label \<Rightarrow> datapoint list \<Rightarrow> rat" where
  "averageInPeriod l dps =
     (case bucket_loop l dps of (mx, totalInPeriod, totalInPeriodCount) \<Rightarrow>
        (if totalInPeriodCount > 0 then totalInPeriod / of_nat totalInPeriodCount
         else totalInPeriod))"

text \<open>\<open>statistic == 'Maximum'\<close>: a number or a boolean is compared with the number the
  string converts to, which is \<open>NaN\<close>; an array is compared by its string conversion.\<close>

fun eq_Maximum :: "pval \<Rightarrow> bool" where
  "eq_Maximum (PStr s) = (s = ''Maximum'')"
| "eq_Maximum (PNum n) = False"
| "eq_Maximum (PBool b) = False"
| "eq_Maximum (PDims ds) = (dims_to_string ds = ''Maximum'')"

definition toPush :: "metric \<Rightarrow> time_label \<Rightarrow> rat" where
  "toPush m l =
     (if eq_Maximum (statistic m) then maxInPeriod l (datapoints m)
      else averageInPeriod l (datapoints m))"

text \<open>One round of the loop over the buckets (lines 327 to 362) and one of the loop over
  the metrics (lines 323 to 365); \<open>absMaxValue\<close> runs through both.\<close>

definition label_step :: "metric \<Rightarrow> rat \<times> rat list \<Rightarrow> time_label \<Rightarrow> rat \<times> rat list" where
  "label_step m st l =
     (case st of (absMaxValue, dataset) \<Rightarrow>
        (if toPush m l > absMaxValue then toPush m l else absMaxValue, dataset @ [toPush m l]))"

definition metric_step :: "time_label list \<Rightarrow> rat \<times> rat list list \<Rightarrow> metric \<Rightarrow> rat \<times> rat list list" where
  "metric_step timeLabels st m =
     (case st of (absMaxValue, datasets) \<Rightarrow>
        (case foldl (label_step m) (absMaxValue, []) timeLabels of
           (absMaxValue', dataset) \<Rightarrow> (absMaxValue', datasets @ [dataset])))"

subsection \<open>The request\<close>

record url_parts =
  timeLabels :: "time_label list"
  labels :: "string list"
  datasets :: "rat list list"
  absMaxValue :: rat
  topEdge :: int
  datasetsAsStrings :: "string list"
  url :: string

definition field_str :: "(jsnum \<Rightarrow> string) \<Rightarrow> jsnum option \<Rightarrow> string" where
  "field_str num_str v = (case v of None \<Rightarrow> ''undefined'' | Some n \<Rightarrow> num_str n)"

definition style :: "(jsnum \<Rightarrow> string) \<Rightarrow> metric \<Rightarrow> string" where
  "style num_str m =
     (if dashed m then to_str num_str (thickness m) @ '',5,5'' else to_str num_str (thickness m))"

text \<open>Lines 318 to 406, once the buckets are known. \<open>1.2\<close> is the rational \<open>6/5\<close>.\<close>

definition render :: "(jsnum \<Rightarrow> string) \<Rightarrow> config \<Rightarrow> metric list \<Rightarrow> time_label list \<Rightarrow> url_parts" where
  "render num_str cfg ms tls =
     (let lbls = map label_text tls;
          (absMax, dsets) = foldl (metric_step tls) (0, []) ms;
          top = \<lceil>absMax * (6 / 5)\<rceil>;
          strs = map (\<lambda>ds. extendedEncode (map Fin ds) (Fin (of_int top))) dsets;
          datasetsAsString = join '','' strs;
          titles = map getTitle ms;
          colors = map (\<lambda>m. to_str num_str (color m)) ms;
          styles = map (style num_str) ms
      in \<lparr> timeLabels = tls, labels = lbls, datasets = dsets, absMaxValue = absMax, topEdge = top,
           datasetsAsStrings = strs,
           url = ''http://chart.googleapis.com/chart?'' @ ''cht=lc&'' @
                 ''chxl=0:|'' @ join ''|'' lbls @ ''&'' @
                 ''chxt=x,y&'' @
                 ''chco='' @ join '','' colors @ ''&'' @
                 ''chls='' @ join ''|'' styles @ ''&'' @
                 ''chs='' @ field_str num_str (width cfg) @ ''x'' @ field_str num_str (height cfg) @ ''&'' @
                 ''chxr=1,0,'' @ num_str (Fin (of_int top)) @ '',10&'' @
                 ''chg=20,10,1,5&'' @
                 ''chdl='' @ join ''|'' titles @ ''&'' @
                 ''chd=e:'' @ datasetsAsString \<rparr>)"

text \<open>
  \<open>getURL\<close> of a chart with configuration \<open>cfg\<close> and metrics \<open>ms\<close>. With no data
  point at all the loop variable is \<open>false\<close>, the loop condition \<open>false <= false\<close> holds
  and \<open>i.getTime()\<close> throws a \<open>TypeError\<close>. The result is \<open>None\<close> when the loop over the
  buckets does not end.
\<close>

definition getURL :: "(jsnum \<Rightarrow> string) \<Rightarrow> config \<Rightarrow> metric list \<Rightarrow> (error + url_parts) option" where
  "getURL num_str cfg ms =
     (case scan ms of (startTime, endTime, n) \<Rightarrow>
        (let diff = js_div (Fin (of_int (date_num endTime - date_num startTime)))
                      (num_field (chartSamples cfg))
         in case startTime of
              None \<Rightarrow>
                (if 0 \<le> date_num endTime
                 then Some (Inl (TypeError ''i.getTime is not a function''))
                 else Some (Inr (render num_str cfg ms [])))
            | Some (sid, s) \<Rightarrow>
                (case walk (case endTime of None \<Rightarrow> False | Some (eid, e) \<Rightarrow> eid = sid)
                        (date_num endTime) diff None [] (Some s) of
                   None \<Rightarrow> None
                 | Some tls \<Rightarrow> Some (Inr (render num_str cfg ms tls)))))"

section \<open>Notions of the specification\<close>

text \<open>
  The definitions of this section are not taken from the code. They say, in the words of
  the specification, what the code is compared with.
\<close>

subsection \<open>The encoding of a value\<close>



subsection \<open>The points of a bucket and their reduction\<close>






subsection \<open>The time range and its partition\<close>

text \<open>
  All data points of all metrics, their earliest and latest timestamp, and the \<open>n\<close>
  contiguous buckets of width \<open>w\<close> that start at \<open>s\<close>, each labelled with the time of
  its end.
\<close>

definition all_points :: "metric list \<Rightarrow> datapoint list" where
  "all_points ms = concat (map datapoints ms)"

definition globalMin :: "metric list \<Rightarrow> int" where
  "globalMin ms = Min (Timestamp ` set (all_points ms))"

definition globalMax :: "metric list \<Rightarrow> int" where
  "globalMax ms = Max (Timestamp ` set (all_points ms))"

definition bucket :: "int \<Rightarrow> int \<Rightarrow> time_label" where
  "bucket a b = \<lparr> label_text = utc_hhmm b, label_start = a, label_end = b \<rparr>"

definition buckets :: "int \<Rightarrow> int \<Rightarrow> nat \<Rightarrow> time_label list" where
  "buckets s w n = map (\<lambda>k. bucket (s + int k * w) (s + (int k + 1) * w)) [0..<n]"

subsection \<open>Valid configurations\<close>

text \<open>
  The field names of a per-metric configuration object that are recognized, whatever the
  case of their letters; the numbers that are whole multiples of 60; the configuration
  that is in effect for a caller's object, which is the defaults overridden by the
  properties the object has; and the configurations that are refused.
\<close>

definition recognized :: "string \<Rightarrow> bool" where
  "recognized k =
     (toLowerCase k \<in> {''title'', ''statistic'', ''namespace'', ''metricname'', ''color'',
        ''unit'', ''thickness'', ''dashed'', ''dimensions''})"

definition multiple_of_60 :: "jsnum \<Rightarrow> bool" where
  "multiple_of_60 x = (case x of Fin a \<Rightarrow> of_int \<lfloor>a\<rfloor> = a \<and> \<lfloor>a\<rfloor> mod 60 = 0 | _ \<Rightarrow> False)"

definition effective :: "config \<Rightarrow> config" where
  "effective c = copy_props (copy_props empty_object defaultConfig) c"

definition metric_objects :: "config \<Rightarrow> (string \<times> pval) list list" where
  "metric_objects c = (case metrics c of Some (MetricsArray ps) \<Rightarrow> ps | _ \<Rightarrow> [])"

definition invalid_config :: "config \<Rightarrow> bool" where
  "invalid_config c =
     (\<not> isArray (metrics c) \<or>
      js_gt (num_field (width c)) (Fin 1000) \<or> js_gt (num_field (height c)) (Fin 1000) \<or>
      js_gt (js_mul (num_field (height c)) (num_field (width c))) (Fin 300000) \<or>
      js_lt (num_field (width c)) (Fin 1) \<or> js_lt (num_field (height c)) (Fin 1) \<or>
      \<not> multiple_of_60 (num_field (timePeriod c)) \<or>
      (\<exists>params\<in>set (metric_objects c). \<exists>kv\<in>set params. \<not> recognized (fst kv)))"

subsection \<open>A number printer for the examples\<close>

text \<open>
  The examples need some \<open>num_str\<close>. This one prints an integer in decimal, as JavaScript
  does for integers of magnitude below \<open>1e21\<close>, and names the non-finite values; the
  examples print integers only.
\<close>

definition num_str_int :: "jsnum \<Rightarrow> string" where
  "num_str_int n =
     (case n of
        Fin a \<Rightarrow> (if a < 0 then ''-'' else []) @ decimal (nat \<bar>\<lfloor>a\<rfloor>\<bar>)
      | PInf \<Rightarrow> ''Infinity''
      | NInf \<Rightarrow> ''-Infinity''
      | NaN \<Rightarrow> ''NaN'')"

section \<open>The encoder: lemmas\<close>


lemma length_EXTENDED_MAP: "length EXTENDED_MAP = 64"
  by (simp add: EXTENDED_MAP_def)




lemma js_trunc_of_int: "js_trunc (of_int k) = k"
  by (simp add: js_trunc_def)

lemma charAt_index:
  "0 \<le> k \<Longrightarrow> k < 64 \<Longrightarrow> charAt EXTENDED_MAP (Fin (of_int k)) = [EXTENDED_MAP ! nat k]"
  by (simp add: js_trunc_of_int length_EXTENDED_MAP)

lemma encode_step_scaled:
  assumes sv: "scaledVal v maxVal = Fin (of_int s)"
  shows "encode_step maxVal acc v =
     acc @ (if s > 4095 then ''..'' else if s < 0 then ''__''
            else [EXTENDED_MAP ! nat (s div 64), EXTENDED_MAP ! nat (s mod 64)])"
proof -
  have q: "\<lfloor>(of_int s :: rat) / 64\<rfloor> = s div 64"
    using floor_divide_of_int_eq [of s 64, where ?'a = rat] by simp
  have r: "(of_int s :: rat) - 64 * of_int (s div 64) = of_int (s mod 64)"
    by (simp add: minus_mult_div_eq_mod [symmetric])
  show ?thesis
  proof (cases "s > 4095 \<or> s < 0")
    case True
    then show ?thesis
      by (auto simp add: encode_step_def sv length_EXTENDED_MAP js_gt_def js_sub_def Let_def)
  next
    case False
    then have "0 \<le> s div 64" "s div 64 < 64" "0 \<le> s mod 64" "s mod 64 < 64"
      by auto
    then show ?thesis using False
      by (simp add: encode_step_def sv length_EXTENDED_MAP js_gt_def js_sub_def Let_def q r
          charAt_index del: charAt.simps)
  qed
qed


text \<open>The scaled value is an integer or it is not finite.\<close>

lemma scaledVal_cases:
  "(\<exists>s. scaledVal v maxVal = Fin (of_int s)) \<or> scaledVal v maxVal = PInf
    \<or> scaledVal v maxVal = NInf \<or> scaledVal v maxVal = NaN"
  by (cases "js_div (js_mul (js_mul (Fin 64) (Fin 64)) v) maxVal")
     (auto simp add: scaledVal_def length_EXTENDED_MAP)

lemma encode_step_nonfinite:
  "scaledVal v maxVal = PInf \<Longrightarrow> encode_step maxVal acc v = acc @ ''..''"
  "scaledVal v maxVal = NInf \<Longrightarrow> encode_step maxVal acc v = acc @ ''__''"
  "scaledVal v maxVal = NaN \<Longrightarrow> encode_step maxVal acc v = acc @ ''AA''"
  by (simp_all add: encode_step_def length_EXTENDED_MAP js_gt_def js_sub_def Let_def EXTENDED_MAP_def)

lemma encode_step_length:
  "length (encode_step maxVal acc v) = length acc + 2"
  using scaledVal_cases [of v maxVal]
  by (auto simp add: encode_step_scaled encode_step_nonfinite)

lemma foldl_encode_step_length:
  "length (foldl (encode_step maxVal) acc vs) = length acc + 2 * length vs"
  by (induction vs arbitrary: acc) (simp_all add: encode_step_length)












section \<open>The reduction of a bucket: lemmas\<close>

lemma Max_insert_step:
  fixes m x :: rat
  assumes "finite S"
  shows "Max (insert (if m < x then x else m) S) = Max (insert m (insert x S))"
proof -
  have "Max (insert m (insert x S)) = max m (Max (insert x S))"
    using assms by simp
  show ?thesis
  proof (cases "S = {}")
    case True
    then show ?thesis by (simp add: max_def)
  next
    case False
    then show ?thesis using assms by (simp add: max_def)
  qed
qed








lemma foldl_label_step:
  "foldl (label_step m) (a, acc) tls =
     (Max (insert a (toPush m ` set tls)), acc @ map (toPush m) tls)"
proof (induction tls arbitrary: a acc)
  case Nil
  then show ?case by simp
next
  case (Cons l tls)
  have mx: "Max (insert (if a < toPush m l then toPush m l else a) (toPush m ` set tls))
      = Max (insert a (toPush m ` set (l # tls)))"
    using Max_insert_step [of "toPush m ` set tls" a "toPush m l"] by (simp del: Max_insert)
  have step: "label_step m (a, acc) l =
      (if a < toPush m l then toPush m l else a, acc @ [toPush m l])"
    by (simp add: label_step_def)
  have "foldl (label_step m) (a, acc) (l # tls) =
      foldl (label_step m) (label_step m (a, acc) l) tls"
    by simp
  also have "\<dots> = (Max (insert a (toPush m ` set (l # tls))),
      (acc @ [toPush m l]) @ map (toPush m) tls)"
    unfolding step Cons.IH mx ..
  finally show ?case by (simp del: Max_insert)
qed

lemma Max_insert_Max:
  fixes a :: rat
  assumes "finite S" "finite T"
  shows "Max (insert (Max (insert a S)) T) = Max (insert a (S \<union> T))"
proof -
  have "Max (insert a (S \<union> T)) = Max (insert a S \<union> insert (Max (insert a S)) T)"
  proof (rule antisym)
    show "Max (insert a (S \<union> T)) \<le> Max (insert a S \<union> insert (Max (insert a S)) T)"
      using assms by (intro Max_mono) auto
    show "Max (insert a S \<union> insert (Max (insert a S)) T) \<le> Max (insert a (S \<union> T))"
      using assms by (subst Max_le_iff) (auto intro: Max_ge)
  qed
  also have "\<dots> = Max (insert (Max (insert a S)) T)"
  proof (rule antisym)
    show "Max (insert a S \<union> insert (Max (insert a S)) T) \<le> Max (insert (Max (insert a S)) T)"
      using assms
      by (subst Max_le_iff) (auto intro: Max_ge order_trans [OF Max_ge [of "insert a S"]])
    show "Max (insert (Max (insert a S)) T) \<le> Max (insert a S \<union> insert (Max (insert a S)) T)"
      using assms by (intro Max_mono) auto
  qed
  finally show ?thesis by simp
qed

lemma foldl_metric_step:
  "foldl (metric_step tls) (a, acc) ms =
     (Max (insert a (\<Union>m\<in>set ms. toPush m ` set tls)),
      acc @ map (\<lambda>m. map (toPush m) tls) ms)"
proof (induction ms arbitrary: a acc)
  case Nil
  then show ?case by simp
next
  case (Cons m ms)
  have mx: "Max (insert (Max (insert a (toPush m ` set tls))) (\<Union>m\<in>set ms. toPush m ` set tls))
      = Max (insert a (\<Union>m\<in>set (m # ms). toPush m ` set tls))"
    using Max_insert_Max [of "toPush m ` set tls" "\<Union>m\<in>set ms. toPush m ` set tls" a]
    by (simp del: Max_insert)
  have step: "metric_step tls (a, acc) m =
      (Max (insert a (toPush m ` set tls)), acc @ [map (toPush m) tls])"
    by (simp add: metric_step_def foldl_label_step del: Max_insert)
  have "foldl (metric_step tls) (a, acc) (m # ms) =
      foldl (metric_step tls) (metric_step tls (a, acc) m) ms"
    by simp
  also have "\<dots> = (Max (insert a (\<Union>m\<in>set (m # ms). toPush m ` set tls)),
      (acc @ [map (toPush m) tls]) @ map (\<lambda>m. map (toPush m) tls) ms)"
    unfolding step Cons.IH mx ..
  finally show ?case by (simp del: Max_insert)
qed

section \<open>The time range and the buckets: lemmas\<close>

lemma scan_all_points: "scan ms = foldl scan_step (None, None, 0) (all_points ms)"
proof -
  have "foldl (\<lambda>st m. foldl scan_step st (datapoints m)) st ms
      = foldl scan_step st (concat (map datapoints ms))" for st
    by (induction ms arbitrary: st) simp_all
  then show ?thesis by (simp add: scan_def all_points_def)
qed

lemma scan_step_Some:
  "scan_step (Some (i, s), Some (j, e), n) p =
     (Some (if Timestamp p < s then (n, Timestamp p) else (i, s)),
      Some (if Timestamp p > e then (n, Timestamp p) else (j, e)), n + 1)"
  by (simp add: scan_step_def Let_def)

lemma scan_step_None:
  "scan_step (None, None, n) p = (Some (n, Timestamp p), Some (n, Timestamp p), n + 1)"
  by (simp add: scan_step_def Let_def)

lemma foldl_scan_step:
  assumes "s \<le> e" "i < n" "j < n" "i = j \<longrightarrow> s = e"
  shows "\<exists>i' j'. foldl scan_step (Some (i, s), Some (j, e), n) ps =
           (Some (i', Min (insert s (Timestamp ` set ps))),
            Some (j', Max (insert e (Timestamp ` set ps))), n + length ps) \<and>
           (i' = j' \<longrightarrow> Min (insert s (Timestamp ` set ps)) = Max (insert e (Timestamp ` set ps)))"
  using assms
proof (induction ps arbitrary: i s j e n)
  case Nil
  then show ?case by simp
next
  case (Cons p ps)
  define t where "t = Timestamp p"
  define s2 where "s2 = (if t < s then t else s)"
  define e2 where "e2 = (if t > e then t else e)"
  define i2 where "i2 = (if t < s then n else i)"
  define j2 where "j2 = (if t > e then n else j)"
  have step: "scan_step (Some (i, s), Some (j, e), n) p = (Some (i2, s2), Some (j2, e2), n + 1)"
    by (simp add: scan_step_Some t_def s2_def e2_def i2_def j2_def)
  have inv: "s2 \<le> e2" "i2 < n + 1" "j2 < n + 1" "i2 = j2 \<longrightarrow> s2 = e2"
    using Cons.prems by (auto simp add: s2_def e2_def i2_def j2_def)
  have mn: "Min (insert s2 (Timestamp ` set ps)) = Min (insert s (Timestamp ` set (p # ps)))"
    by (cases "set ps = {}") (auto simp add: s2_def t_def min_def)
  have mx: "Max (insert e2 (Timestamp ` set ps)) = Max (insert e (Timestamp ` set (p # ps)))"
    by (cases "set ps = {}") (auto simp add: e2_def t_def max_def)
  from Cons.IH [OF inv] obtain i' j' where
    r: "foldl scan_step (Some (i2, s2), Some (j2, e2), n + 1) ps =
           (Some (i', Min (insert s2 (Timestamp ` set ps))),
            Some (j', Max (insert e2 (Timestamp ` set ps))), n + 1 + length ps)"
    and a: "i' = j' \<longrightarrow> Min (insert s2 (Timestamp ` set ps)) = Max (insert e2 (Timestamp ` set ps))"
    by blast
  have "foldl scan_step (Some (i, s), Some (j, e), n) (p # ps) =
      (Some (i', Min (insert s (Timestamp ` set (p # ps)))),
       Some (j', Max (insert e (Timestamp ` set (p # ps)))), n + length (p # ps))"
    using r unfolding mn mx by (simp add: step)
  moreover have "i' = j' \<longrightarrow>
      Min (insert s (Timestamp ` set (p # ps))) = Max (insert e (Timestamp ` set (p # ps)))"
    using a unfolding mn mx .
  ultimately show ?case by blast
qed

lemma scan_empty: "all_points ms = [] \<Longrightarrow> scan ms = (None, None, 0)"
  by (simp add: scan_all_points)

lemma scan_nonempty:
  assumes "all_points ms \<noteq> []"
  shows "\<exists>i j. scan ms =
           (Some (i, Min (Timestamp ` set (all_points ms))),
            Some (j, Max (Timestamp ` set (all_points ms))), length (all_points ms)) \<and>
           (i = j \<longrightarrow> Min (Timestamp ` set (all_points ms)) = Max (Timestamp ` set (all_points ms)))"
proof -
  from assms obtain p ps where ps: "all_points ms = p # ps"
    by (cases "all_points ms") auto
  have mn: "Min (insert (Timestamp p) (Timestamp ` set ps)) = Min (Timestamp ` set (p # ps))"
    by simp
  have mx: "Max (insert (Timestamp p) (Timestamp ` set ps)) = Max (Timestamp ` set (p # ps))"
    by simp
  from foldl_scan_step [of "Timestamp p" "Timestamp p" 0 1 0 ps]
  show ?thesis
    unfolding scan_all_points ps mn mx by (simp add: scan_step_None del: Min_insert Max_insert)
qed

lemma TimeClip_add_int:
  "TimeClip (Fin (of_int t + of_int w)) =
     (if \<bar>t + w\<bar> > 8640000000000000 then None else Some (t + w))"
proof -
  have "(\<bar>of_int (t + w) :: rat\<bar> > 8640000000000000) = (\<bar>t + w\<bar> > 8640000000000000)"
    by (metis of_int_abs of_int_less_iff of_int_numeral)
  then show ?thesis
    using js_trunc_of_int [of "t + w"] by (simp add: TimeClip_def)
qed

lemma walk_stop:
  "e < t \<Longrightarrow> walk False e d prev acc (Some t) = Some acc"
  by (subst walk.simps) simp

lemma walk_invalid: "walk same e d prev acc None = Some acc"
  by (subst walk.simps) simp

lemma walk_step:
  "t \<le> e \<Longrightarrow> walk False e d (Some p) acc (Some t) =
     walk False e d (Some t) (acc @ [bucket p t]) (TimeClip (js_add (Fin (of_int t)) d))"
  by (subst walk.simps) (simp add: bucket_def)

lemma walk_first:
  "t \<le> e \<Longrightarrow> walk False e d None acc (Some t) =
     walk False e d (Some t) acc (TimeClip (js_add (Fin (of_int t)) d))"
  by (subst walk.simps) simp

lemma buckets_Suc:
  "buckets s w (Suc n) = bucket s (s + w) # buckets (s + w) w n"
proof -
  have "[0..<Suc n] = 0 # map Suc [0..<n]"
    by (simp add: upt_conv_Cons map_Suc_upt del: upt_Suc)
  then show ?thesis
    by (simp add: buckets_def algebra_simps comp_def del: upt_Suc)
qed

lemma walk_run:
  assumes w: "0 < w" and lo: "- 8640000000000000 \<le> t" and hi: "e \<le> 8640000000000000"
    and k: "e = t + int k * w"
  shows "walk False e (Fin (of_int w)) (Some p) acc (Some t) =
           Some (acc @ bucket p t # buckets t w k)"
  using lo k
proof (induction k arbitrary: t p acc)
  case 0
  then have te: "t = e" by simp
  have "walk False e (Fin (of_int w)) (Some e) (acc @ [bucket p e])
          (TimeClip (js_add (Fin (of_int e)) (Fin (of_int w)))) = Some (acc @ [bucket p e])"
    using w by (simp add: TimeClip_add_int walk_invalid walk_stop)
  then show ?case
    by (simp add: te walk_step buckets_def)
next
  case (Suc k)
  have w0: "0 \<le> int k * w" using w by simp
  have le: "t + w \<le> e" using Suc.prems(2) w0 by (simp add: algebra_simps)
  then have tle: "t \<le> e" using w by simp
  have clip: "TimeClip (Fin (of_int t + of_int w)) = Some (t + w)"
    using le hi Suc.prems(1) w by (simp add: TimeClip_add_int)
  have "walk False e (Fin (of_int w)) (Some t) (acc @ [bucket p t]) (Some (t + w)) =
      Some ((acc @ [bucket p t]) @ bucket t (t + w) # buckets (t + w) w k)"
    using Suc.prems w by (intro Suc.IH) (simp_all add: algebra_simps)
  then show ?case
    by (simp add: walk_step [OF tle] clip buckets_Suc)
qed

lemma walk_from_start:
  assumes w: "0 < w" and lo: "- 8640000000000000 \<le> s" and hi: "e \<le> 8640000000000000"
    and n: "e = s + int n * w" and n0: "0 < n"
  shows "walk False e (Fin (of_int w)) None [] (Some s) = Some (buckets s w n)"
proof -
  from n0 obtain k where k: "n = Suc k" by (cases n) auto
  have w0: "0 \<le> int k * w" using w by simp
  have le: "s + w \<le> e" using n w0 by (simp add: k algebra_simps)
  then have sle: "s \<le> e" using w by simp
  have clip: "TimeClip (Fin (of_int s + of_int w)) = Some (s + w)"
    using le hi lo w by (simp add: TimeClip_add_int)
  have "walk False e (Fin (of_int w)) (Some s) [] (Some (s + w)) =
      Some ([] @ bucket s (s + w) # buckets (s + w) w k)"
    using lo w n by (intro walk_run [OF w _ hi]) (simp_all add: k algebra_simps)
  then show ?thesis
    by (simp add: walk_first [OF sle] clip k buckets_Suc)
qed

section \<open>The request: lemmas\<close>

lemma render_timeLabels: "timeLabels (render ns cfg ms tls) = tls"
  by (simp add: render_def Let_def split_def)

lemma render_labels: "labels (render ns cfg ms tls) = map label_text tls"
  by (simp add: render_def Let_def split_def)

lemma render_datasets:
  "datasets (render ns cfg ms tls) = map (\<lambda>m. map (toPush m) tls) ms"
  by (simp add: render_def Let_def split_def foldl_metric_step del: Max_insert)

lemma render_absMaxValue:
  "absMaxValue (render ns cfg ms tls) = Max (insert 0 (\<Union>m\<in>set ms. toPush m ` set tls))"
  by (simp add: render_def Let_def split_def foldl_metric_step del: Max_insert)

lemma render_topEdge:
  "topEdge (render ns cfg ms tls) = \<lceil>absMaxValue (render ns cfg ms tls) * (6 / 5)\<rceil>"
  by (simp add: render_def Let_def split_def)

lemma render_datasetsAsStrings:
  "datasetsAsStrings (render ns cfg ms tls) =
     map (\<lambda>ds. extendedEncode (map Fin ds) (Fin (of_int (topEdge (render ns cfg ms tls)))))
       (datasets (render ns cfg ms tls))"
  by (simp add: render_def Let_def split_def)

lemma getURL_Inr:
  assumes "getURL ns cfg ms = Some (Inr r)"
  shows "r = render ns cfg ms (timeLabels r)"
proof -
  from assms obtain tls where "r = render ns cfg ms tls"
    by (auto simp add: getURL_def Let_def split: prod.splits option.splits if_splits)
  then show ?thesis by (simp add: render_timeLabels)
qed

lemma getURL_no_points:
  "all_points ms = [] \<Longrightarrow>
   getURL ns cfg ms = Some (Inl (TypeError ''i.getTime is not a function''))"
  by (simp add: getURL_def scan_empty date_num_def)

lemma of_int_div_exact:
  fixes a b :: int
  assumes "b dvd a" "b \<noteq> 0"
  shows "(of_int a :: rat) / of_int b = of_int (a div b)"
proof -
  from assms(1) obtain k where "a = b * k" by (auto simp add: dvd_def)
  then show ?thesis using assms(2) by simp
qed

lemma getURL_buckets:
  assumes pts: "all_points ms \<noteq> []"
    and rng: "\<forall>p\<in>set (all_points ms). \<bar>Timestamp p\<bar> \<le> 8640000000000000"
    and N: "0 < N" and cs: "chartSamples cfg = Some (Fin (of_nat N))"
    and D: "Min (Timestamp ` set (all_points ms)) < Max (Timestamp ` set (all_points ms))"
    and dv: "int N dvd Max (Timestamp ` set (all_points ms)) - Min (Timestamp ` set (all_points ms))"
  shows "getURL ns cfg ms =
     Some (Inr (render ns cfg ms
       (buckets (Min (Timestamp ` set (all_points ms)))
          ((Max (Timestamp ` set (all_points ms)) - Min (Timestamp ` set (all_points ms))) div int N) N)))"
proof -
  define s where "s = Min (Timestamp ` set (all_points ms))"
  define e where "e = Max (Timestamp ` set (all_points ms))"
  define w where "w = (e - s) div int N"
  have ne: "Timestamp ` set (all_points ms) \<noteq> {}" using pts by simp
  have "s \<in> Timestamp ` set (all_points ms)" unfolding s_def using ne by (intro Min_in) simp_all
  then have lo: "- 8640000000000000 \<le> s" using rng by force
  have "e \<in> Timestamp ` set (all_points ms)" unfolding e_def using ne by (intro Max_in) simp_all
  then have hi: "e \<le> 8640000000000000" using rng by force
  have se: "s < e" using D by (simp add: s_def e_def)
  have dv': "int N dvd e - s" using dv by (simp add: s_def e_def)
  then have ew: "e - s = int N * w" by (simp add: w_def)
  have w: "0 < w"
  proof (rule ccontr)
    assume "\<not> 0 < w"
    then have "int N * w \<le> 0" using N by (simp add: mult_le_0_iff)
    then show False using ew se by simp
  qed
  have en: "e = s + int N * w" using ew by simp
  from scan_nonempty [OF pts] obtain i j where
    sc: "scan ms = (Some (i, s), Some (j, e), length (all_points ms))" and ij: "i = j \<longrightarrow> s = e"
    unfolding s_def e_def by blast
  have ij': "j \<noteq> i" using ij se by auto
  have diff: "js_div (Fin (of_int (e - s))) (Fin (of_nat N)) = Fin (of_int w)"
    using of_int_div_exact [OF dv'] N by (simp add: w_def)
  have wk: "walk False e (Fin (of_int w)) None [] (Some s) = Some (buckets s w N)"
    by (rule walk_from_start [OF w lo hi en N])
  have "getURL ns cfg ms =
      (case walk False e (js_div (Fin (of_int (e - s))) (Fin (of_nat N))) None [] (Some s) of
         None \<Rightarrow> None
       | Some tls \<Rightarrow> Some (Inr (render ns cfg ms tls)))"
    by (simp add: getURL_def sc date_num_def num_field_def cs ij' Let_def del: js_div.simps)
  also have "\<dots> = Some (Inr (render ns cfg ms (buckets s w N)))"
    unfolding diff wk by simp
  finally show ?thesis
    unfolding w_def s_def e_def .
qed

lemma length_buckets: "length (buckets s w n) = n"
  by (simp add: buckets_def)

lemma nth_buckets:
  "k < n \<Longrightarrow> buckets s w n ! k = bucket (s + int k * w) (s + (int k + 1) * w)"
  by (simp add: buckets_def)

lemma length_extendedEncode: "length (extendedEncode vals maxVal) = 2 * length vals"
  by (simp add: extendedEncode_def foldl_encode_step_length)

text \<open>
  Where the sample count is right. When \<open>chartSamples\<close> is a positive whole number \<open>N\<close>,
  the fetched data points span a positive time range and \<open>N\<close> divides that range in
  milliseconds (so that the bucket width is a whole number of milliseconds), \<open>getURL\<close>
  returns, the walk from the earliest to the latest timestamp yields exactly \<open>N\<close>
  contiguous buckets of equal width that end at the latest timestamp, there are \<open>N\<close>
  labels, and the value sequence of every metric has \<open>N\<close> entries, encoded in \<open>2 * N\<close>
  characters. Timestamps are time values of \<open>Date\<close> objects, of magnitude at most
  \<open>8.64e15\<close>.
\<close>

theorem getURL_sample_count:
  assumes "all_points ms \<noteq> []"
    and "\<forall>p\<in>set (all_points ms). \<bar>Timestamp p\<bar> \<le> 8640000000000000"
    and "0 < N" and "chartSamples cfg = Some (Fin (of_nat N))"
    and "globalMin ms < globalMax ms"
    and "int N dvd globalMax ms - globalMin ms"
  shows "\<exists>r. getURL ns cfg ms = Some (Inr r) \<and>
           timeLabels r = buckets (globalMin ms) ((globalMax ms - globalMin ms) div int N) N \<and>
           globalMin ms + int N * ((globalMax ms - globalMin ms) div int N) = globalMax ms \<and>
           length (labels r) = N \<and>
           length (datasets r) = length ms \<and> (\<forall>ds\<in>set (datasets r). length ds = N) \<and>
           length (datasetsAsStrings r) = length ms \<and>
           (\<forall>str\<in>set (datasetsAsStrings r). length str = 2 * N)"
proof -
  define tls where "tls = buckets (globalMin ms) ((globalMax ms - globalMin ms) div int N) N"
  define r where "r = render ns cfg ms tls"
  have g: "getURL ns cfg ms = Some (Inr r)"
    unfolding r_def tls_def globalMin_def globalMax_def
    using assms by (intro getURL_buckets) (simp_all add: globalMin_def globalMax_def)
  have t: "timeLabels r = tls" by (simp add: r_def render_timeLabels)
  have p: "globalMin ms + int N * ((globalMax ms - globalMin ms) div int N) = globalMax ms"
    using assms(6) by simp
  have l: "length (labels r) = N"
    by (simp add: r_def render_labels tls_def length_buckets)
  have d: "datasets r = map (\<lambda>m. map (toPush m) tls) ms"
    by (simp add: r_def render_datasets)
  have d1: "length (datasets r) = length ms" by (simp add: d)
  have d2: "\<forall>ds\<in>set (datasets r). length ds = N"
    by (auto simp add: d tls_def length_buckets)
  have s: "datasetsAsStrings r =
      map (\<lambda>ds. extendedEncode (map Fin ds) (Fin (of_int (topEdge r)))) (datasets r)"
    unfolding r_def by (rule render_datasetsAsStrings)
  have s1: "length (datasetsAsStrings r) = length ms" by (simp add: s d1)
  have s2: "\<forall>str\<in>set (datasetsAsStrings r). length str = 2 * N"
    using d2 by (auto simp add: s length_extendedEncode)
  from g t p l d1 d2 s1 s2 show ?thesis unfolding tls_def by blast
qed

theorem getURL_sample_count_witness:
  "all_points [AwsCloudWatchChartMetric \<lparr> datapoints :=
       [\<lparr> Timestamp = 0, Maximum = None, Average = Some 1 \<rparr>,
        \<lparr> Timestamp = 10, Maximum = None, Average = Some 2 \<rparr>] \<rparr>] \<noteq> [] \<and>
   (0::nat) < 2 \<and>
   globalMin [AwsCloudWatchChartMetric \<lparr> datapoints :=
       [\<lparr> Timestamp = 0, Maximum = None, Average = Some 1 \<rparr>,
        \<lparr> Timestamp = 10, Maximum = None, Average = Some 2 \<rparr>] \<rparr>] = 0 \<and>
   globalMax [AwsCloudWatchChartMetric \<lparr> datapoints :=
       [\<lparr> Timestamp = 0, Maximum = None, Average = Some 1 \<rparr>,
        \<lparr> Timestamp = 10, Maximum = None, Average = Some 2 \<rparr>] \<rparr>] = 10 \<and>
   int 2 dvd 10 - 0 \<and>
   map_option (map_sum id labels)
     (getURL num_str_int (defaultConfig \<lparr> chartSamples := Some (Fin 2) \<rparr>)
        [AwsCloudWatchChartMetric \<lparr> datapoints :=
           [\<lparr> Timestamp = 0, Maximum = None, Average = Some 1 \<rparr>,
            \<lparr> Timestamp = 10, Maximum = None, Average = Some 2 \<rparr>] \<rparr>])
     = Some (Inr [''00:00'', ''00:00''])"
proof -
  define ms where "ms = [AwsCloudWatchChartMetric \<lparr> datapoints :=
       [\<lparr> Timestamp = 0, Maximum = None, Average = Some 1 \<rparr>,
        \<lparr> Timestamp = 10, Maximum = None, Average = Some (2 :: rat) \<rparr>] \<rparr>]"
  define cfg where "cfg = defaultConfig \<lparr> chartSamples := Some (Fin 2) \<rparr>"
  have ap: "all_points ms =
       [\<lparr> Timestamp = 0, Maximum = None, Average = Some 1 \<rparr>,
        \<lparr> Timestamp = 10, Maximum = None, Average = Some 2 \<rparr>]"
    by (simp add: ms_def all_points_def)
  have h1: "all_points ms \<noteq> []" by (simp add: ap)
  have h2: "\<forall>p\<in>set (all_points ms). \<bar>Timestamp p\<bar> \<le> 8640000000000000" by (simp add: ap)
  have h3: "(0::nat) < 2" by simp
  have h4: "chartSamples cfg = Some (Fin (of_nat 2))" by (simp add: cfg_def)
  have mn: "globalMin ms = 0" by (simp add: globalMin_def ap)
  have mx: "globalMax ms = 10" by (simp add: globalMax_def ap)
  have h5: "globalMin ms < globalMax ms" by (simp add: mn mx)
  have h6: "int 2 dvd globalMax ms - globalMin ms" by (simp add: mn mx)
  from getURL_sample_count [OF h1 h2 h3 h4 h5 h6, of num_str_int]
  obtain r where g: "getURL num_str_int cfg ms = Some (Inr r)"
    and t: "timeLabels r = buckets (globalMin ms) ((globalMax ms - globalMin ms) div int 2) 2"
    by blast
  have r: "r = render num_str_int cfg ms (timeLabels r)"
    using g by (rule getURL_Inr)
  have b: "map label_text (buckets 0 ((10 - 0) div int 2) 2) = [''00:00'', ''00:00'']"
    by code_simp
  have "labels r = map label_text (timeLabels r)"
    by (subst r) (simp add: render_labels)
  then have "labels r = [''00:00'', ''00:00'']"
    unfolding t mn mx b .
  then have "map_option (map_sum id labels) (getURL num_str_int cfg ms) = Some (Inr [''00:00'', ''00:00''])"
    by (simp add: g)
  then show ?thesis
    using h1 mn mx unfolding ms_def cfg_def by simp
qed

lemma TimeClip_same:
  "\<bar>t\<bar> \<le> 8640000000000000 \<Longrightarrow> TimeClip (js_add (Fin (of_int t)) (Fin 0)) = Some t"
proof -
  assume a: "\<bar>t\<bar> \<le> 8640000000000000"
  have "(\<bar>of_int t :: rat\<bar> > 8640000000000000) = (\<bar>t\<bar> > 8640000000000000)"
    by (metis of_int_abs of_int_less_iff of_int_numeral)
  then show ?thesis using a by (simp add: TimeClip_def js_trunc_of_int)
qed

lemma walk_zero_step:
  assumes "walk same e diff prevTime acc i = Some y"
  shows "\<not> (diff = Fin 0 \<and> (\<exists>t. i = Some t \<and> (same \<or> t \<le> e) \<and> \<bar>t\<bar> \<le> 8640000000000000))"
proof (rule walk.raw_induct [where P = "\<lambda>same e diff prevTime acc i y.
    \<not> (diff = Fin 0 \<and> (\<exists>t. i = Some t \<and> (same \<or> t \<le> e) \<and> \<bar>t\<bar> \<le> 8640000000000000))",
    OF _ assms])
  fix walk' :: "bool \<Rightarrow> int \<Rightarrow> jsnum \<Rightarrow> int option \<Rightarrow> time_label list \<Rightarrow> int option \<Rightarrow> time_label list option"
  fix same e diff prevTime timeLabels i y
  assume IH: "\<And>same e diff prevTime timeLabels i y.
      walk' same e diff prevTime timeLabels i = Some y \<Longrightarrow>
      \<not> (diff = Fin 0 \<and> (\<exists>t. i = Some t \<and> (same \<or> t \<le> e) \<and> \<bar>t\<bar> \<le> 8640000000000000))"
  assume body: "(case i of
        None \<Rightarrow> Some timeLabels
      | Some t \<Rightarrow>
          (if t \<le> (if same then t else e)
           then walk' same e diff (Some t)
                  (case prevTime of
                     None \<Rightarrow> timeLabels
                   | Some p \<Rightarrow> timeLabels @
                       [\<lparr> label_text = utc_hhmm t, label_start = p, label_end = t \<rparr>])
                  (TimeClip (js_add (Fin (of_int t)) diff))
           else Some timeLabels)) = Some y"
  show "\<not> (diff = Fin 0 \<and> (\<exists>t. i = Some t \<and> (same \<or> t \<le> e) \<and> \<bar>t\<bar> \<le> 8640000000000000))"
  proof
    assume "diff = Fin 0 \<and> (\<exists>t. i = Some t \<and> (same \<or> t \<le> e) \<and> \<bar>t\<bar> \<le> 8640000000000000)"
    then obtain t where d: "diff = Fin 0" and i: "i = Some t" and c: "same \<or> t \<le> e"
      and b: "\<bar>t\<bar> \<le> 8640000000000000"
      by blast
    have le: "t \<le> (if same then t else e)" using c by auto
    from body have "walk' same e (Fin 0) (Some t)
        (case prevTime of None \<Rightarrow> timeLabels
         | Some p \<Rightarrow> timeLabels @ [\<lparr>label_text = utc_hhmm t, label_start = p, label_end = t\<rparr>])
        (Some t) = Some y"
      unfolding i d using le TimeClip_same [OF b] by (simp del: js_add.simps)
    from IH [OF this] show False using c b by simp
  qed
qed

lemma walk_zero_step_None:
  assumes "same \<or> t \<le> e" and "\<bar>t\<bar> \<le> 8640000000000000"
  shows "walk same e (Fin 0) prevTime acc (Some t) = None"
proof (cases "walk same e (Fin 0) prevTime acc (Some t)")
  case None
  then show ?thesis .
next
  case (Some y)
  from walk_zero_step [OF Some] assms show ?thesis by simp
qed

text \<open>
  When all data points have the same timestamp, a single data point included, the step
  of the walk is zero and the loop of lines 305 to 316 never ends.
\<close>

lemma getURL_one_timestamp:
  assumes pts: "all_points ms \<noteq> []"
    and one: "\<forall>p\<in>set (all_points ms). Timestamp p = t"
    and rng: "\<bar>t\<bar> \<le> 8640000000000000"
    and cs: "chartSamples cfg = Some (Fin c)" "c \<noteq> 0"
  shows "getURL ns cfg ms = None"
proof -
  have img: "Timestamp ` set (all_points ms) = {t}" using pts one by (cases "all_points ms") auto
  from scan_nonempty [OF pts] obtain i j where
    sc: "scan ms = (Some (i, t), Some (j, t), length (all_points ms))"
    unfolding img by auto
  have diff: "js_div (Fin (of_int (t - t))) (Fin c) = Fin 0" using cs(2) by simp
  have wk: "walk (j = i) t (Fin 0) None [] (Some t) = None"
    by (rule walk_zero_step_None) (simp_all add: rng)
  have "getURL ns cfg ms =
      (case walk (j = i) t (js_div (Fin (of_int (t - t))) (Fin c)) None [] (Some t) of
         None \<Rightarrow> None
       | Some tls \<Rightarrow> Some (Inr (render ns cfg ms tls)))"
    by (simp add: getURL_def sc date_num_def num_field_def cs Let_def del: js_div.simps)
  also have "\<dots> = None" unfolding diff wk by simp
  finally show ?thesis .
qed

text \<open>
  Claim C1 fails on the code. With a single data point and the default \<open>chartSamples\<close> of
  24, \<open>getURL\<close> does not return: the step is zero and the loop over the buckets runs
  forever. With timestamps 0 and 10 and \<open>chartSamples = 4\<close> the step is 2.5, \<open>setTime\<close> cuts
  the fraction off, the walk visits 0, 2, 4, 6, 8, 10 and makes five buckets, so that
  there are five labels and five encoded values instead of four.
\<close>

theorem getURL_sample_count_fails:
  "getURL num_str_int defaultConfig
     [AwsCloudWatchChartMetric \<lparr> datapoints :=
        [\<lparr> Timestamp = 0, Maximum = None, Average = Some 1 \<rparr>] \<rparr>] = None \<and>
   map_option (map_sum id labels)
     (getURL num_str_int (defaultConfig \<lparr> chartSamples := Some (Fin 4) \<rparr>)
        [AwsCloudWatchChartMetric \<lparr> datapoints :=
           [\<lparr> Timestamp = 0, Maximum = None, Average = Some 1 \<rparr>,
            \<lparr> Timestamp = 10, Maximum = None, Average = Some 2 \<rparr>] \<rparr>])
     = Some (Inr [''00:00'', ''00:00'', ''00:00'', ''00:00'', ''00:00'']) \<and>
   map_option (map_sum id datasets)
     (getURL num_str_int (defaultConfig \<lparr> chartSamples := Some (Fin 4) \<rparr>)
        [AwsCloudWatchChartMetric \<lparr> datapoints :=
           [\<lparr> Timestamp = 0, Maximum = None, Average = Some 1 \<rparr>,
            \<lparr> Timestamp = 10, Maximum = None, Average = Some 2 \<rparr>] \<rparr>])
     = Some (Inr [[0, 0, 0, 0, 2]]) \<and>
   map_option (map_sum id datasetsAsStrings)
     (getURL num_str_int (defaultConfig \<lparr> chartSamples := Some (Fin 4) \<rparr>)
        [AwsCloudWatchChartMetric \<lparr> datapoints :=
           [\<lparr> Timestamp = 0, Maximum = None, Average = Some 1 \<rparr>,
            \<lparr> Timestamp = 10, Maximum = None, Average = Some 2 \<rparr>] \<rparr>])
     = Some (Inr [''AAAAAAAAqq''])"
proof -
  define ms where "ms = [AwsCloudWatchChartMetric \<lparr> datapoints :=
        [\<lparr> Timestamp = 0, Maximum = None, Average = Some (1 :: rat) \<rparr>] \<rparr>]"
  have ap: "all_points ms = [\<lparr> Timestamp = 0, Maximum = None, Average = Some 1 \<rparr>]"
    by (simp add: ms_def all_points_def)
  have "getURL num_str_int defaultConfig ms = None"
    by (rule getURL_one_timestamp [where t = 0 and c = 24])
       (simp_all add: ap defaultConfig_def)
  then have 1: "getURL num_str_int defaultConfig
     [AwsCloudWatchChartMetric \<lparr> datapoints :=
        [\<lparr> Timestamp = 0, Maximum = None, Average = Some 1 \<rparr>] \<rparr>] = None"
    unfolding ms_def .
  have 2: "map_option (map_sum id labels)
     (getURL num_str_int (defaultConfig \<lparr> chartSamples := Some (Fin 4) \<rparr>)
        [AwsCloudWatchChartMetric \<lparr> datapoints :=
           [\<lparr> Timestamp = 0, Maximum = None, Average = Some 1 \<rparr>,
            \<lparr> Timestamp = 10, Maximum = None, Average = Some 2 \<rparr>] \<rparr>])
     = Some (Inr [''00:00'', ''00:00'', ''00:00'', ''00:00'', ''00:00''])"
    by code_simp
  have 3: "map_option (map_sum id datasets)
     (getURL num_str_int (defaultConfig \<lparr> chartSamples := Some (Fin 4) \<rparr>)
        [AwsCloudWatchChartMetric \<lparr> datapoints :=
           [\<lparr> Timestamp = 0, Maximum = None, Average = Some 1 \<rparr>,
            \<lparr> Timestamp = 10, Maximum = None, Average = Some 2 \<rparr>] \<rparr>])
     = Some (Inr [[0, 0, 0, 0, 2]])"
    by code_simp
  have 4: "map_option (map_sum id datasetsAsStrings)
     (getURL num_str_int (defaultConfig \<lparr> chartSamples := Some (Fin 4) \<rparr>)
        [AwsCloudWatchChartMetric \<lparr> datapoints :=
           [\<lparr> Timestamp = 0, Maximum = None, Average = Some 1 \<rparr>,
            \<lparr> Timestamp = 10, Maximum = None, Average = Some 2 \<rparr>] \<rparr>])
     = Some (Inr [''AAAAAAAAqq''])"
    by code_simp
  from 1 2 3 4 show ?thesis by blast
qed





lemma hd_join:
  "x \<noteq> [] \<Longrightarrow> hd (join sep (x # xs)) = hd x"
  by (cases xs) simp_all

lemma dims_to_string_not_Maximum: "dims_to_string ds \<noteq> ''Maximum''"
proof (cases ds)
  case Nil
  then show ?thesis by (simp add: dims_to_string_def)
next
  case (Cons d ds')
  have "hd (dims_to_string ds) = CHR ''[''"
    using hd_join [of "''[object Object]''"] by (simp add: dims_to_string_def Cons)
  then show ?thesis by auto
qed

lemma eq_Maximum_iff: "eq_Maximum v \<longleftrightarrow> v = PStr ''Maximum''"
  by (cases v) (simp_all add: dims_to_string_not_Maximum)

text \<open>
  Claim C8. Whenever \<open>getURL\<close> returns, every bucket scalar of a series whose statistic
  is \<open>Maximum\<close> is the maximum reduction of that bucket over the points of the series, and
  every bucket scalar of a series with another statistic is the average reduction.
\<close>

theorem getURL_statistic_selection:
  assumes "getURL ns cfg ms = Some (Inr r)" and "j < length (timeLabels r)"
  shows "length (datasets r) = length ms \<and>
         (k < length ms \<longrightarrow> length (datasets r ! k) = length (timeLabels r)) \<and>
         (k < length ms \<and> statistic (ms ! k) = PStr ''Maximum'' \<longrightarrow>
            datasets r ! k ! j = maxInPeriod (timeLabels r ! j) (datapoints (ms ! k))) \<and>
         (k' < length ms \<and> statistic (ms ! k') \<noteq> PStr ''Maximum'' \<longrightarrow>
            datasets r ! k' ! j = averageInPeriod (timeLabels r ! j) (datapoints (ms ! k')))"
proof -
  have r: "r = render ns cfg ms (timeLabels r)"
    using assms(1) by (rule getURL_Inr)
  have d: "datasets r = map (\<lambda>m. map (toPush m) (timeLabels r)) ms"
    by (subst r) (simp add: render_datasets)
  have n: "i < length ms \<Longrightarrow> datasets r ! i ! j = toPush (ms ! i) (timeLabels r ! j)" for i
    using assms(2) by (simp add: d)
  show ?thesis
    using n [of k] n [of k'] by (simp add: d toPush_def eq_Maximum_iff)
qed

theorem getURL_statistic_selection_witness:
  "getURL num_str_int (defaultConfig \<lparr> chartSamples := Some (Fin 1) \<rparr>)
     [AwsCloudWatchChartMetric \<lparr> statistic := PStr ''Maximum'', datapoints :=
        [\<lparr> Timestamp = 0, Maximum = Some 4, Average = Some 1 \<rparr>,
         \<lparr> Timestamp = 5, Maximum = Some 8, Average = Some 2 \<rparr>,
         \<lparr> Timestamp = 10, Maximum = Some 6, Average = Some 3 \<rparr>] \<rparr>,
      AwsCloudWatchChartMetric \<lparr> datapoints :=
        [\<lparr> Timestamp = 0, Maximum = Some 4, Average = Some 1 \<rparr>,
         \<lparr> Timestamp = 5, Maximum = Some 8, Average = Some 2 \<rparr>,
         \<lparr> Timestamp = 10, Maximum = Some 6, Average = Some 3 \<rparr>] \<rparr>]
   = Some (Inr (render num_str_int (defaultConfig \<lparr> chartSamples := Some (Fin 1) \<rparr>)
     [AwsCloudWatchChartMetric \<lparr> statistic := PStr ''Maximum'', datapoints :=
        [\<lparr> Timestamp = 0, Maximum = Some 4, Average = Some 1 \<rparr>,
         \<lparr> Timestamp = 5, Maximum = Some 8, Average = Some 2 \<rparr>,
         \<lparr> Timestamp = 10, Maximum = Some 6, Average = Some 3 \<rparr>] \<rparr>,
      AwsCloudWatchChartMetric \<lparr> datapoints :=
        [\<lparr> Timestamp = 0, Maximum = Some 4, Average = Some 1 \<rparr>,
         \<lparr> Timestamp = 5, Maximum = Some 8, Average = Some 2 \<rparr>,
         \<lparr> Timestamp = 10, Maximum = Some 6, Average = Some 3 \<rparr>] \<rparr>]
     (buckets 0 10 1))) \<and>
   datasets (render num_str_int (defaultConfig \<lparr> chartSamples := Some (Fin 1) \<rparr>)
     [AwsCloudWatchChartMetric \<lparr> statistic := PStr ''Maximum'', datapoints :=
        [\<lparr> Timestamp = 0, Maximum = Some 4, Average = Some 1 \<rparr>,
         \<lparr> Timestamp = 5, Maximum = Some 8, Average = Some 2 \<rparr>,
         \<lparr> Timestamp = 10, Maximum = Some 6, Average = Some 3 \<rparr>] \<rparr>,
      AwsCloudWatchChartMetric \<lparr> datapoints :=
        [\<lparr> Timestamp = 0, Maximum = Some 4, Average = Some 1 \<rparr>,
         \<lparr> Timestamp = 5, Maximum = Some 8, Average = Some 2 \<rparr>,
         \<lparr> Timestamp = 10, Maximum = Some 6, Average = Some 3 \<rparr>] \<rparr>]
     (buckets 0 10 1)) = [[8], [5 / 2]]"
proof -
  define dps where "dps =
        [\<lparr> Timestamp = 0, Maximum = Some 4, Average = Some 1 \<rparr>,
         \<lparr> Timestamp = 5, Maximum = Some 8, Average = Some 2 \<rparr>,
         \<lparr> Timestamp = 10, Maximum = Some 6, Average = Some (3 :: rat) \<rparr>]"
  define ms where "ms = [AwsCloudWatchChartMetric \<lparr> statistic := PStr ''Maximum'', datapoints := dps \<rparr>,
      AwsCloudWatchChartMetric \<lparr> datapoints := dps \<rparr>]"
  define cfg where "cfg = defaultConfig \<lparr> chartSamples := Some (Fin 1) \<rparr>"
  define r where "r = render num_str_int cfg ms (buckets 0 10 1)"
  have g: "getURL num_str_int cfg ms = Some (Inr r)"
    unfolding ms_def dps_def cfg_def r_def by code_simp
  have tl: "timeLabels r = [bucket 0 10]"
    by (simp add: r_def render_timeLabels buckets_def)
  have j: "0 < length (timeLabels r)" by (simp add: tl)
  have m0: "statistic (ms ! 0) = PStr ''Maximum''" "datapoints (ms ! 0) = dps"
    by (simp_all add: ms_def AwsCloudWatchChartMetric_def)
  have m1: "statistic (ms ! 1) \<noteq> PStr ''Maximum''" "datapoints (ms ! 1) = dps"
    by (simp_all add: ms_def AwsCloudWatchChartMetric_def)
  have mx: "maxInPeriod (bucket 0 10) dps = 8" unfolding dps_def by code_simp
  have av: "averageInPeriod (bucket 0 10) dps = 5 / 2" unfolding dps_def by code_simp
  from getURL_statistic_selection [OF g j, of 0 1] m0 m1 have
    "length (datasets r) = 2" "length (datasets r ! 0) = 1"
    "datasets r ! 0 ! 0 = 8" "datasets r ! 1 ! 0 = 5 / 2"
    by (simp_all add: ms_def tl mx av)
  moreover from getURL_statistic_selection [OF g j, of 1 1] have
    "length (datasets r ! 1) = 1"
    by (simp add: ms_def tl)
  ultimately have "datasets r = [[8], [5 / 2]]"
    by (simp add: list_eq_iff_nth_eq less_Suc_eq numeral_2_eq_2)
  with g show ?thesis unfolding r_def ms_def dps_def cfg_def by simp
qed

lemma scaledVal_zero:
  "scaledVal (Fin v) (Fin 0) = (if v = 0 then NaN else if 0 < v then PInf else NInf)"
  by (simp add: scaledVal_def length_EXTENDED_MAP signed_inf_def)

lemma encode_step_zero:
  "encode_step (Fin 0) acc (Fin v) =
     acc @ (if 0 < v then ''..'' else if v < 0 then ''__'' else ''AA'')"
proof -
  consider "v = 0" | "0 < v" | "v < 0" by linarith
  then show ?thesis
  proof cases
    case 1
    then have "scaledVal (Fin v) (Fin 0) = NaN" by (simp add: scaledVal_zero)
    then show ?thesis using 1 by (simp add: encode_step_nonfinite(3))
  next
    case 2
    then have "scaledVal (Fin v) (Fin 0) = PInf" by (simp add: scaledVal_zero)
    then show ?thesis using 2 by (simp add: encode_step_nonfinite(1))
  next
    case 3
    then have "scaledVal (Fin v) (Fin 0) = NInf" by (simp add: scaledVal_zero)
    then show ?thesis using 3 by (simp add: encode_step_nonfinite(2))
  qed
qed

lemma extendedEncode_zero:
  "extendedEncode (map Fin vs) (Fin 0) =
     concat (map (\<lambda>v. if 0 < v then ''..'' else if v < 0 then ''__'' else ''AA'') vs)"
proof -
  have "foldl (encode_step (Fin 0)) acc (map Fin vs) =
      acc @ concat (map (\<lambda>v. if 0 < v then ''..'' else if v < 0 then ''__'' else ''AA'') vs)" for acc
    by (induction vs arbitrary: acc) (simp_all add: encode_step_zero)
  then show ?thesis by (simp add: extendedEncode_def)
qed

text \<open>
  Claim C6, amended. The degenerate cases are not guarded. With no data point at all
  \<open>getURL\<close> throws a \<open>TypeError\<close> (\<open>getTime\<close> is called on \<open>false\<close>), not an error of
  its own. With a y-axis ceiling of zero there is no error at all: every bucket scalar is
  at most 0, the encoder divides by zero, and \<open>getURL\<close> returns a chart string in which
  a zero is encoded as \<open>AA\<close> and a negative value as \<open>__\<close>.
\<close>

theorem getURL_degenerate:
  "(all_points ms = [] \<longrightarrow>
      getURL ns cfg ms = Some (Inl (TypeError ''i.getTime is not a function''))) \<and>
   (getURL ns cfg ms' = Some (Inr r) \<and> topEdge r = 0 \<longrightarrow>
      absMaxValue r = 0 \<and> (\<forall>ds\<in>set (datasets r). \<forall>v\<in>set ds. v \<le> 0) \<and>
      datasetsAsStrings r =
        map (\<lambda>ds. concat (map (\<lambda>v. if v < 0 then ''__'' else ''AA'') ds)) (datasets r))"
proof (intro conjI impI)
  assume "all_points ms = []"
  then show "getURL ns cfg ms = Some (Inl (TypeError ''i.getTime is not a function''))"
    by (rule getURL_no_points)
next
  assume h: "getURL ns cfg ms' = Some (Inr r) \<and> topEdge r = 0"
  define tls where "tls = timeLabels r"
  define S where "S = (\<Union>m\<in>set ms'. toPush m ` set tls)"
  have r: "r = render ns cfg ms' tls"
    unfolding tls_def using h by (intro getURL_Inr) simp
  have fin: "finite S" by (simp add: S_def)
  have a: "absMaxValue r = Max (insert 0 S)"
    by (simp add: r render_absMaxValue S_def del: Max_insert)
  have a0: "0 \<le> absMaxValue r" unfolding a using fin by (intro Max_ge) simp_all
  have "\<lceil>absMaxValue r * (6 / 5)\<rceil> = 0"
    using h render_topEdge [of ns cfg ms' tls] by (simp add: r)
  then have "absMaxValue r * (6 / 5) \<le> 0" by (simp add: ceiling_eq_iff)
  then have a1: "absMaxValue r \<le> 0" by simp
  show z: "absMaxValue r = 0" using a0 a1 by simp
  have d: "datasets r = map (\<lambda>m. map (toPush m) tls) ms'"
    by (simp add: r render_datasets)
  have le: "v \<le> 0" if "v \<in> S" for v
  proof -
    have "v \<le> Max (insert 0 S)" using fin that by (intro Max_ge) simp_all
    then show ?thesis using a z by simp
  qed
  show neg: "\<forall>ds\<in>set (datasets r). \<forall>v\<in>set ds. v \<le> 0"
  proof (intro ballI)
    fix ds v
    assume ds: "ds \<in> set (datasets r)" and v: "v \<in> set ds"
    from ds obtain m where "m \<in> set ms'" "ds = map (toPush m) tls"
      by (auto simp add: d)
    then have "v \<in> S" using v by (auto simp add: S_def)
    then show "v \<le> 0" by (rule le)
  qed
  have s: "datasetsAsStrings r =
      map (\<lambda>ds. extendedEncode (map Fin ds) (Fin 0)) (datasets r)"
    using h render_datasetsAsStrings [of ns cfg ms' tls] by (simp add: r [symmetric])
  have "extendedEncode (map Fin ds) (Fin 0) =
      concat (map (\<lambda>v. if v < 0 then ''__'' else ''AA'') ds)"
    if "ds \<in> set (datasets r)" for ds
  proof -
    have "\<forall>v\<in>set ds. v \<le> 0" using neg that by blast
    then have "map (\<lambda>v. if 0 < v then ''..'' else if v < 0 then ''__'' else ''AA'') ds =
        map (\<lambda>v. if v < 0 then ''__'' else ''AA'') ds"
      by (intro map_cong) auto
    then show ?thesis unfolding extendedEncode_zero by (rule arg_cong)
  qed
  then show "datasetsAsStrings r =
      map (\<lambda>ds. concat (map (\<lambda>v. if v < 0 then ''__'' else ''AA'') ds)) (datasets r)"
    unfolding s by (intro map_cong) simp_all
qed

theorem getURL_degenerate_witness:
  "all_points [AwsCloudWatchChartMetric] = [] \<and>
   getURL num_str_int (defaultConfig \<lparr> chartSamples := Some (Fin 2) \<rparr>)
     [AwsCloudWatchChartMetric]
     = Some (Inl (TypeError ''i.getTime is not a function'')) \<and>
   getURL num_str_int (defaultConfig \<lparr> chartSamples := Some (Fin 2) \<rparr>)
     [AwsCloudWatchChartMetric \<lparr> datapoints :=
        [\<lparr> Timestamp = 0, Maximum = None, Average = Some 0 \<rparr>,
         \<lparr> Timestamp = 10, Maximum = None, Average = Some 0 \<rparr>] \<rparr>]
   = Some (Inr (render num_str_int (defaultConfig \<lparr> chartSamples := Some (Fin 2) \<rparr>)
     [AwsCloudWatchChartMetric \<lparr> datapoints :=
        [\<lparr> Timestamp = 0, Maximum = None, Average = Some 0 \<rparr>,
         \<lparr> Timestamp = 10, Maximum = None, Average = Some 0 \<rparr>] \<rparr>]
     (buckets 0 5 2))) \<and>
   topEdge (render num_str_int (defaultConfig \<lparr> chartSamples := Some (Fin 2) \<rparr>)
     [AwsCloudWatchChartMetric \<lparr> datapoints :=
        [\<lparr> Timestamp = 0, Maximum = None, Average = Some 0 \<rparr>,
         \<lparr> Timestamp = 10, Maximum = None, Average = Some 0 \<rparr>] \<rparr>]
     (buckets 0 5 2)) = 0 \<and>
   datasetsAsStrings (render num_str_int (defaultConfig \<lparr> chartSamples := Some (Fin 2) \<rparr>)
     [AwsCloudWatchChartMetric \<lparr> datapoints :=
        [\<lparr> Timestamp = 0, Maximum = None, Average = Some 0 \<rparr>,
         \<lparr> Timestamp = 10, Maximum = None, Average = Some 0 \<rparr>] \<rparr>]
     (buckets 0 5 2)) = [''AAAA'']"
proof -
  define ms where "ms = [AwsCloudWatchChartMetric \<lparr> datapoints :=
       [\<lparr> Timestamp = 0, Maximum = None, Average = Some 0 \<rparr>,
        \<lparr> Timestamp = 10, Maximum = None, Average = Some (0 :: rat) \<rparr>] \<rparr>]"
  define cfg where "cfg = defaultConfig \<lparr> chartSamples := Some (Fin 2) \<rparr>"
  define r where "r = render num_str_int cfg ms (buckets 0 5 2)"
  have e: "all_points [AwsCloudWatchChartMetric] = []"
    by (simp add: all_points_def AwsCloudWatchChartMetric_def)
  have g: "getURL num_str_int cfg ms = Some (Inr r)"
    unfolding ms_def cfg_def r_def by code_simp
  have t: "topEdge r = 0"
    unfolding ms_def cfg_def r_def by code_simp
  have d: "datasets r = [[0, 0]]"
    unfolding ms_def cfg_def r_def by code_simp
  from getURL_degenerate [of "[AwsCloudWatchChartMetric]" num_str_int cfg ms r] e g t
  have "getURL num_str_int cfg [AwsCloudWatchChartMetric]
      = Some (Inl (TypeError ''i.getTime is not a function''))"
    and "datasetsAsStrings r =
        map (\<lambda>ds. concat (map (\<lambda>v. if v < 0 then ''__'' else ''AA'') ds)) (datasets r)"
    by blast+
  then show ?thesis
    using e g t unfolding d unfolding ms_def cfg_def r_def by simp
qed

text \<open>
  The claim as stated fails: for a series that is flat at zero the ceiling is 0 and
  \<open>getURL\<close> reports no error; it returns the request below.
\<close>

theorem getURL_degenerate_counterexample:
  "map_option (map_sum id topEdge)
     (getURL num_str_int (defaultConfig \<lparr> chartSamples := Some (Fin 2) \<rparr>)
        [AwsCloudWatchChartMetric \<lparr> datapoints :=
           [\<lparr> Timestamp = 0, Maximum = None, Average = Some 0 \<rparr>,
            \<lparr> Timestamp = 10, Maximum = None, Average = Some 0 \<rparr>] \<rparr>])
     = Some (Inr 0) \<and>
   map_option (map_sum id url)
     (getURL num_str_int (defaultConfig \<lparr> chartSamples := Some (Fin 2) \<rparr>)
        [AwsCloudWatchChartMetric \<lparr> datapoints :=
           [\<lparr> Timestamp = 0, Maximum = None, Average = Some 0 \<rparr>,
            \<lparr> Timestamp = 10, Maximum = None, Average = Some 0 \<rparr>] \<rparr>])
     = Some (Inr ''http://chart.googleapis.com/chart?cht=lc&chxl=0:|00:00|00:00&chxt=x,y&chco=FF0000&chls=1&chs=1000x250&chxr=1,0,0,10&chg=20,10,1,5&chdl=&chd=e:AAAA'')"
  by code_simp

section \<open>The constructor: lemmas\<close>

lemma set_param_Inl:
  "(\<exists>e. set_param ns k v m = Inl e) \<longleftrightarrow> \<not> recognized k"
  by (simp add: set_param_def recognized_def Let_def)

lemma addMetric_loop_Inl:
  "(\<exists>e. addMetric_loop ns params m = Inl e) \<longleftrightarrow> (\<exists>kv\<in>set params. \<not> recognized (fst kv))"
proof (induction params arbitrary: m)
  case Nil
  then show ?case by simp
next
  case (Cons kv params)
  obtain k v where kv: "kv = (k, v)" by (cases kv)
  show ?case
  proof (cases "set_param ns k v m")
    case (Inl e)
    then have "\<not> recognized k" using set_param_Inl [of ns k v m] by blast
    then show ?thesis by (simp add: kv Inl)
  next
    case (Inr m')
    then have "recognized k" using set_param_Inl [of ns k v m] by auto
    then show ?thesis using Cons.IH [of m'] by (simp add: kv Inr)
  qed
qed

lemma addMetric_Inl:
  "(\<exists>e. addMetric ns ms params = Inl e) \<longleftrightarrow> (\<exists>kv\<in>set params. \<not> recognized (fst kv))"
  using addMetric_loop_Inl [of ns params AwsCloudWatchChartMetric]
  by (auto simp add: addMetric_def split: sum.splits)

lemma addMetrics_Inl:
  "(\<exists>e. addMetrics ns ps ms = Inl e) \<longleftrightarrow>
     (\<exists>params\<in>set ps. \<exists>kv\<in>set params. \<not> recognized (fst kv))"
proof (induction ps arbitrary: ms)
  case Nil
  then show ?case by simp
next
  case (Cons params ps)
  show ?case
  proof (cases "addMetric ns ms params")
    case (Inl e)
    then have "\<exists>kv\<in>set params. \<not> recognized (fst kv)"
      using addMetric_Inl [of ns ms params] by blast
    then show ?thesis by (simp add: Inl)
  next
    case (Inr ms')
    then have "\<not> (\<exists>kv\<in>set params. \<not> recognized (fst kv))"
      using addMetric_Inl [of ns ms params] by auto
    then show ?thesis using Cons.IH [of ms'] by (simp add: Inr)
  qed
qed

lemma rem_60_zero_iff:
  fixes a :: rat
  shows "a - 60 * of_int (js_trunc (a / 60)) = 0 \<longleftrightarrow> of_int \<lfloor>a\<rfloor> = a \<and> \<lfloor>a\<rfloor> mod 60 = 0"
proof
  assume "a - 60 * of_int (js_trunc (a / 60)) = 0"
  then have a: "a = of_int (60 * js_trunc (a / 60))" by simp
  have "\<lfloor>a\<rfloor> = 60 * js_trunc (a / 60)" by (subst a) (rule floor_of_int)
  then show "of_int \<lfloor>a\<rfloor> = a \<and> \<lfloor>a\<rfloor> mod 60 = 0" using a by simp
next
  assume h: "of_int \<lfloor>a\<rfloor> = a \<and> \<lfloor>a\<rfloor> mod 60 = 0"
  then obtain m where m: "\<lfloor>a\<rfloor> = 60 * m" by (auto simp add: mod_eq_0_iff_dvd dvd_def)
  have a: "a = of_int (60 * m)" using h m by simp
  have "a / 60 = of_int m" by (simp add: a)
  then have "js_trunc (a / 60) = m" by (simp add: js_trunc_of_int)
  then show "a - 60 * of_int (js_trunc (a / 60)) = 0" by (simp add: a)
qed

lemma js_rem_60:
  "js_neq (js_rem x (Fin 60)) (Fin 0) \<longleftrightarrow> \<not> multiple_of_60 x"
  using rem_60_zero_iff by (cases x) (simp_all add: js_neq_def multiple_of_60_def)

lemma Object_assign_fresh:
  "Object_assign (length h) [s1, s2] (h @ [obj]) = h @ [copy_props (copy_props obj s1) s2]"
  by (simp add: Object_assign_def)

lemma constructor_at:
  assumes a: "a < length h"
  shows "AwsCloudWatchChart ns (ConfigAt a) h =
     (if invalid_config (effective (h ! a))
      then (Inl (if \<not> isArray (metrics (effective (h ! a)))
                 then Error ''config.metrics array required''
                 else if js_gt (num_field (width (effective (h ! a)))) (Fin 1000) \<or>
                         js_gt (num_field (height (effective (h ! a)))) (Fin 1000) \<or>
                         js_gt (js_mul (num_field (height (effective (h ! a))))
                                  (num_field (width (effective (h ! a))))) (Fin 300000)
                 then Error ''Maximum value for width or height is 1,000. Width x height cannot exceed 300,000.''
                 else if js_lt (num_field (width (effective (h ! a)))) (Fin 1) \<or>
                         js_lt (num_field (height (effective (h ! a)))) (Fin 1)
                 then Error ''Invalid width and height parameters''
                 else if \<not> multiple_of_60 (num_field (timePeriod (effective (h ! a))))
                 then Error ''config.timePeriod should be based on 60''
                 else projl (addMetrics ns (metric_objects (effective (h ! a))) [])),
            h @ [effective (h ! a)])
      else (Inr \<lparr> this_metrics = projr (addMetrics ns (metric_objects (effective (h ! a))) []),
                  this_config = length h \<rparr>,
            h @ [effective (h ! a)]))"
proof -
  have nth: "(h @ [empty_object]) ! a = h ! a" using a by (simp add: nth_append)
  have asg: "Object_assign (length h) [defaultConfig, h ! a] (h @ [empty_object]) =
      h @ [effective (h ! a)]"
    by (simp add: Object_assign_fresh effective_def)
  have am: "(\<exists>e. addMetrics ns (metric_objects (effective (h ! a))) [] = Inl e) \<longleftrightarrow>
      (\<exists>params\<in>set (metric_objects (effective (h ! a))). \<exists>kv\<in>set params. \<not> recognized (fst kv))"
    by (rule addMetrics_Inl)
  show ?thesis
    using am
    by (cases "addMetrics ns (metric_objects (effective (h ! a))) []")
       (auto simp add: AwsCloudWatchChart_def nth asg Let_def js_rem_60 invalid_config_def
          metric_objects_def)
qed





lemma effective_fields:
  "metrics (effective c) = metrics c"
  "timeOffset (effective c) = (case timeOffset c of None \<Rightarrow> Some (Fin 1440) | Some v \<Rightarrow> Some v)"
  "timePeriod (effective c) = (case timePeriod c of None \<Rightarrow> Some (Fin 60) | Some v \<Rightarrow> Some v)"
  "chartSamples (effective c) = (case chartSamples c of None \<Rightarrow> Some (Fin 24) | Some v \<Rightarrow> Some v)"
  "width (effective c) = (case width c of None \<Rightarrow> Some (Fin 1000) | Some v \<Rightarrow> Some v)"
  "height (effective c) = (case height c of None \<Rightarrow> Some (Fin 250) | Some v \<Rightarrow> Some v)"
  by (simp_all add: effective_def copy_props_def empty_object_def defaultConfig_def
      split: option.splits)

text \<open>
  Claim C10. The constructor does not change the caller's configuration object, nor any
  other object of the store: it adds one object, the chart's own configuration, at a
  fresh address. When a chart is constructed, each property of that object has the
  caller's value where the caller's object has the property and the default otherwise
  (\<open>timeOffset\<close> 1440, \<open>timePeriod\<close> 60, \<open>chartSamples\<close> 24, \<open>width\<close> 1000, \<open>height\<close> 250).
\<close>

theorem constructor_frame:
  assumes "a < length h" and "AwsCloudWatchChart ns (ConfigAt a) h = (res, h')"
  shows "h' ! a = h ! a \<and> take (length h) h' = h \<and> length h' = length h + 1 \<and>
         (res = Inr ch \<longrightarrow>
            this_config ch = length h \<and> this_config ch \<noteq> a \<and>
            metrics (h' ! this_config ch) = metrics (h ! a) \<and>
            timeOffset (h' ! this_config ch) =
              (case timeOffset (h ! a) of None \<Rightarrow> Some (Fin 1440) | Some v \<Rightarrow> Some v) \<and>
            timePeriod (h' ! this_config ch) =
              (case timePeriod (h ! a) of None \<Rightarrow> Some (Fin 60) | Some v \<Rightarrow> Some v) \<and>
            chartSamples (h' ! this_config ch) =
              (case chartSamples (h ! a) of None \<Rightarrow> Some (Fin 24) | Some v \<Rightarrow> Some v) \<and>
            width (h' ! this_config ch) =
              (case width (h ! a) of None \<Rightarrow> Some (Fin 1000) | Some v \<Rightarrow> Some v) \<and>
            height (h' ! this_config ch) =
              (case height (h ! a) of None \<Rightarrow> Some (Fin 250) | Some v \<Rightarrow> Some v))"
proof -
  have h': "h' = h @ [effective (h ! a)]"
    using assms(2) by (simp add: constructor_at [OF assms(1)] split: if_splits)
  have c: "res = Inr ch \<Longrightarrow> this_config ch = length h"
    using assms(2) by (auto simp add: constructor_at [OF assms(1)] split: if_splits)
  have 1: "h' ! a = h ! a" using assms(1) by (simp add: h' nth_append)
  have 2: "take (length h) h' = h" by (simp add: h')
  have 3: "length h' = length h + 1" by (simp add: h')
  have 4: "h' ! length h = effective (h ! a)" by (simp add: h')
  show ?thesis
    using 1 2 3 c assms(1) by (auto simp add: 4 effective_fields)
qed

theorem constructor_frame_witness:
  "(0::nat) < length [\<lparr> metrics = Some (MetricsArray [[(''title'', PStr ''cpu'')]]),
        timeOffset = None, timePeriod = Some (Fin 120), chartSamples = None,
        width = Some (Fin 600), height = None \<rparr>] \<and>
   AwsCloudWatchChart num_str_int (ConfigAt 0)
     [\<lparr> metrics = Some (MetricsArray [[(''title'', PStr ''cpu'')]]),
        timeOffset = None, timePeriod = Some (Fin 120), chartSamples = None,
        width = Some (Fin 600), height = None \<rparr>] =
     (Inr \<lparr> this_metrics = [AwsCloudWatchChartMetric \<lparr> title := Some ''cpu'' \<rparr>],
            this_config = 1 \<rparr>,
      [\<lparr> metrics = Some (MetricsArray [[(''title'', PStr ''cpu'')]]),
         timeOffset = None, timePeriod = Some (Fin 120), chartSamples = None,
         width = Some (Fin 600), height = None \<rparr>,
       \<lparr> metrics = Some (MetricsArray [[(''title'', PStr ''cpu'')]]),
         timeOffset = Some (Fin 1440), timePeriod = Some (Fin 120), chartSamples = Some (Fin 24),
         width = Some (Fin 600), height = Some (Fin 250) \<rparr>])"
proof -
  define c where "c = \<lparr> metrics = Some (MetricsArray [[(''title'', PStr ''cpu'')]]),
        timeOffset = None, timePeriod = Some (Fin 120), chartSamples = None,
        width = Some (Fin 600), height = None \<rparr>"
  define ch where "ch = \<lparr> this_metrics = [AwsCloudWatchChartMetric \<lparr> title := Some ''cpu'' \<rparr>],
            this_config = 1 \<rparr>"
  define h' where "h' = snd (AwsCloudWatchChart num_str_int (ConfigAt 0) [c])"
  have l: "(0::nat) < length [c]" by simp
  have r: "fst (AwsCloudWatchChart num_str_int (ConfigAt 0) [c]) = Inr ch"
    unfolding c_def ch_def by code_simp
  then have g: "AwsCloudWatchChart num_str_int (ConfigAt 0) [c] = (Inr ch, h')"
    by (simp add: h'_def prod_eq_iff)
  from constructor_frame [OF l g, of ch]
  have f: "h' ! 0 = c" "length h' = 2" "this_config ch = 1"
    "metrics (h' ! 1) = metrics c" "timeOffset (h' ! 1) = Some (Fin 1440)"
    "timePeriod (h' ! 1) = Some (Fin 120)" "chartSamples (h' ! 1) = Some (Fin 24)"
    "width (h' ! 1) = Some (Fin 600)" "height (h' ! 1) = Some (Fin 250)"
    by (simp_all add: c_def ch_def)
  have "h' ! 1 = \<lparr> metrics = Some (MetricsArray [[(''title'', PStr ''cpu'')]]),
         timeOffset = Some (Fin 1440), timePeriod = Some (Fin 120), chartSamples = Some (Fin 24),
         width = Some (Fin 600), height = Some (Fin 250) \<rparr>"
    using f(4-9) by (cases "h' ! 1") (simp add: c_def)
  then have "h' = [c, \<lparr> metrics = Some (MetricsArray [[(''title'', PStr ''cpu'')]]),
         timeOffset = Some (Fin 1440), timePeriod = Some (Fin 120), chartSamples = Some (Fin 24),
         width = Some (Fin 600), height = Some (Fin 250) \<rparr>]"
    using f(1,2) by (simp add: list_eq_iff_nth_eq less_Suc_eq numeral_2_eq_2)
  then show ?thesis using l g unfolding c_def ch_def by simp
qed

text \<open>
  Claim C9. \<open>getTitle\<close> returns the configured title when there is one; otherwise the
  \<open>Value\<close> of the first dimension when the series has a dimension (the empty string when
  that dimension has no \<open>Value\<close>); otherwise the empty string. A title is configured by a
  \<open>title\<close> parameter, whose string conversion \<open>addMetric\<close> stores.
\<close>

theorem getTitle_resolution:
  "(title m1 = Some t \<longrightarrow> getTitle m1 = t) \<and>
   (title m2 = None \<and> Dimensions m2 = PDims (d # ds) \<and> Value d = Some v \<longrightarrow> getTitle m2 = v) \<and>
   (title m3 = None \<and> Dimensions m3 = PDims (d' # ds') \<and> Value d' = None \<longrightarrow> getTitle m3 = []) \<and>
   (title m4 = None \<and> Dimensions m4 = PDims [] \<longrightarrow> getTitle m4 = []) \<and>
   (toLowerCase k = ''title'' \<and> set_param ns k x m5 = Inr m6 \<longrightarrow> getTitle m6 = to_str ns x)"
  by (auto simp add: getTitle_def set_param_def Let_def)

theorem getTitle_resolution_witness:
  "getTitle (AwsCloudWatchChartMetric \<lparr> title := Some ''Server1 Max CPU'',
      Dimensions := PDims [\<lparr> Name = ''InstanceId'', Value = Some ''i-2d55aad0'' \<rparr>] \<rparr>)
     = ''Server1 Max CPU'' \<and>
   getTitle (AwsCloudWatchChartMetric \<lparr>
      Dimensions := PDims [\<lparr> Name = ''InstanceId'', Value = Some ''i-123'' \<rparr>] \<rparr>) = ''i-123'' \<and>
   getTitle (AwsCloudWatchChartMetric \<lparr>
      Dimensions := PDims [\<lparr> Name = ''InstanceId'', Value = None \<rparr>] \<rparr>) = [] \<and>
   getTitle AwsCloudWatchChartMetric = [] \<and>
   map_sum id getTitle (set_param num_str_int ''Title'' (PStr ''cpu'') AwsCloudWatchChartMetric)
     = Inr ''cpu''"
proof -
  define m1 where "m1 = AwsCloudWatchChartMetric \<lparr> title := Some ''Server1 Max CPU'',
      Dimensions := PDims [\<lparr> Name = ''InstanceId'', Value = Some ''i-2d55aad0'' \<rparr>] \<rparr>"
  define m2 where "m2 = AwsCloudWatchChartMetric \<lparr>
      Dimensions := PDims [\<lparr> Name = ''InstanceId'', Value = Some ''i-123'' \<rparr>] \<rparr>"
  define m3 where "m3 = AwsCloudWatchChartMetric \<lparr>
      Dimensions := PDims [\<lparr> Name = ''InstanceId'', Value = None \<rparr>] \<rparr>"
  define m6 where "m6 = AwsCloudWatchChartMetric \<lparr> title := Some ''cpu'' \<rparr>"
  have s: "set_param num_str_int ''Title'' (PStr ''cpu'') AwsCloudWatchChartMetric = Inr m6"
    unfolding m6_def by code_simp
  have k: "toLowerCase ''Title'' = ''title''" by code_simp
  from getTitle_resolution [of m1 "''Server1 Max CPU''" m2
      "\<lparr> Name = ''InstanceId'', Value = Some ''i-123'' \<rparr>" "[]" "''i-123''" m3
      "\<lparr> Name = ''InstanceId'', Value = None \<rparr>" "[]" AwsCloudWatchChartMetric
      "''Title''" num_str_int "PStr ''cpu''" AwsCloudWatchChartMetric m6] s k
  have "getTitle m1 = ''Server1 Max CPU'' \<and> getTitle m2 = ''i-123'' \<and> getTitle m3 = [] \<and>
      getTitle AwsCloudWatchChartMetric = [] \<and> getTitle m6 = ''cpu''"
    by (simp add: m1_def m2_def m3_def AwsCloudWatchChartMetric_def)
  then show ?thesis
    unfolding m1_def m2_def m3_def by (simp add: s)
qed

end
